theory Spec2Isabelle
  imports Complex_Main
begin

section \<open>PixelProof: the Figma integration subsystem\<close>

text \<open>
  A shallow embedding of the Figma integration code of PixelProof: the frames route
  (\<^verbatim>\<open>app/api/figma/frames/route.ts\<close>), the Figma API client (\<^verbatim>\<open>lib/figma\<close>) and the
  baseline snapshot generator (\<^verbatim>\<open>lib/baseline\<close>).

  Conventions of the model:
  \<^item> a JavaScript \<^verbatim>\<open>number\<close> that carries a measurement (a bounding box coordinate, a
    colour channel, a variable value) is the \<^typ>\<open>real\<close> it denotes; \<^verbatim>\<open>NaN\<close> and the
    infinities are not represented. Comparison and \<^verbatim>\<open>Math.round\<close> are exact on such
    numbers; a product is rounded to the nearest double, as IEEE 754 arithmetic does. A
    timestamp is an \<^typ>\<open>int\<close> of milliseconds, a counter a \<^typ>\<open>nat\<close>;
  \<^item> a JavaScript string is a \<^typ>\<open>string\<close>; only ASCII letters change case;
  \<^item> an optional property is an \<^typ>\<open>'a option\<close>;
  \<^item> a \<^verbatim>\<open>Record<string, T>\<close> that the code iterates over is a list of pairs in the order
    in which \<^verbatim>\<open>Object.keys\<close> enumerates it; one that the code builds is a map;
  \<^item> an exception is a value of type \<open>error\<close> on the left of a sum;
  \<^item> an array that the code mutates in place is passed in and returned;
  \<^item> what an awaited call to a collaborator (the database, the Figma HTTP API, the clock,
    the process environment, the cipher of \<^verbatim>\<open>lib/crypto\<close>) yields is a field of an
    environment record; console output is not modelled.
\<close>

subsection \<open>JavaScript helpers\<close>

text \<open>\<^verbatim>\<open>Math.round\<close>: the nearest integer, a tie going up.\<close>

definition Math_round :: "real \<Rightarrow> int" where
  "Math_round v = \<lfloor>v + 1 / 2\<rfloor>"

text \<open>
  The product of two doubles, \<^verbatim>\<open>a * b\<close>: the exact product rounded to the nearest
  double, a tie going to the even significand (IEEE 754 binary64, round to nearest even).
  A double \<open>x\<close> with \<open>pow2 e \<le> |x| < pow2 (e + 1)\<close> is a multiple of \<open>pow2 (e - 52)\<close>;
  below \<open>pow2 (- 1022)\<close> the doubles are the multiples of \<open>pow2 (- 1074)\<close>. Overflow to
  infinity (a result of \<open>pow2 1024\<close> or more) is not represented.
\<close>

definition pow2 :: "int \<Rightarrow> real" where
  "pow2 k = (if 0 \<le> k then 2 ^ nat k else 1 / 2 ^ nat (- k))"

definition roundHalfEven :: "real \<Rightarrow> int" where
  "roundHalfEven y =
     (let f = \<lfloor>y\<rfloor> in
      if y - of_int f < 1 / 2 then f
      else if 1 / 2 < y - of_int f then f + 1
      else if even f then f else f + 1)"

definition binaryExponent :: "real \<Rightarrow> int" where
  "binaryExponent x = max \<lfloor>log 2 \<bar>x\<bar>\<rfloor> (- 1022)"

definition toDouble :: "real \<Rightarrow> real" where
  "toDouble x =
     (if x = 0 then 0
      else
        (let ulp = pow2 (binaryExponent x - 52)
         in of_int (roundHalfEven (x / ulp)) * ulp))"

definition times_double :: "real \<Rightarrow> real \<Rightarrow> real" where
  "times_double a b = toDouble (a * b)"

text \<open>\<^verbatim>\<open>s || d\<close> on strings: the empty string is falsy.\<close>

definition or_default :: "string \<Rightarrow> string \<Rightarrow> string" where
  "or_default s d = (if s = [] then d else s)"

text \<open>\<^verbatim>\<open>!v\<close> on an optional string: absent and empty are both falsy.\<close>

definition falsy :: "string option \<Rightarrow> bool" where
  "falsy v = (v = None \<or> v = Some [])"

text \<open>
  \<^verbatim>\<open>obj[name] = value\<close> on an object created by \<^verbatim>\<open>{}\<close>, seen as the map of its own
  properties: the key \<^verbatim>\<open>__proto__\<close> reaches the prototype accessor and adds no property.
\<close>

definition setProperty :: "string \<Rightarrow> 'v \<Rightarrow> (string \<rightharpoonup> 'v) \<Rightarrow> (string \<rightharpoonup> 'v)" where
  "setProperty name v obj = (if name = ''__proto__'' then obj else obj(name \<mapsto> v))"

definition toLowerCase_char :: "char \<Rightarrow> char" where
  "toLowerCase_char c =
     (case map_of (zip ''ABCDEFGHIJKLMNOPQRSTUVWXYZ'' ''abcdefghijklmnopqrstuvwxyz'') c of
        None \<Rightarrow> c | Some l \<Rightarrow> l)"

definition toLowerCase :: "string \<Rightarrow> string" where
  "toLowerCase s = map toLowerCase_char s"

fun startsWith :: "string \<Rightarrow> string \<Rightarrow> bool" where
  "startsWith s [] = True"
| "startsWith [] (p # ps) = False"
| "startsWith (c # cs) (p # ps) = (c = p \<and> startsWith cs ps)"

text \<open>\<^verbatim>\<open>s.includes(sub)\<close>.\<close>

fun str_includes :: "string \<Rightarrow> string \<Rightarrow> bool" where
  "str_includes [] sub = (sub = [])"
| "str_includes (c # cs) sub = (startsWith (c # cs) sub \<or> str_includes cs sub)"

text \<open>\<^verbatim>\<open>n.toString(16)\<close> for an integer \<open>n \<ge> 0\<close>.\<close>

definition hexDigit :: "nat \<Rightarrow> char" where
  "hexDigit d = ''0123456789abcdef'' ! (d mod 16)"

fun toString16 :: "nat \<Rightarrow> string" where
  "toString16 n = (if n < 16 then [hexDigit n] else toString16 (n div 16) @ [hexDigit (n mod 16)])"

declare toString16.simps [simp del]

subsection \<open>Types of the Figma client\<close>

text \<open>
  The two kinds of exception the code raises and tells apart with \<^verbatim>\<open>instanceof\<close>:
  \<^verbatim>\<open>FigmaApiError(message, statusCode, endpoint)\<close> and a plain \<^verbatim>\<open>Error(message)\<close>. The
  optional \<^verbatim>\<open>details\<close> of a \<^verbatim>\<open>FigmaApiError\<close> are read nowhere and left out.
\<close>

datatype error =
  FigmaApiError (err_message: string) (err_statusCode: int) (err_endpoint: string)
| Error (err_message: string)

record FigmaBoundingBox =
  bbox_x :: real
  bbox_y :: real
  bbox_width :: real
  bbox_height :: real

text \<open>
  \<^verbatim>\<open>FigmaNode\<close>: id, name, type, the optional \<^verbatim>\<open>absoluteBoundingBox\<close> and the optional
  \<^verbatim>\<open>children\<close>.
\<close>

datatype FigmaNode = FigmaNode
  (node_id: string) (node_name: string) (node_type: string)
  (absoluteBoundingBox: "FigmaBoundingBox option")
  (children: "FigmaNode list option")

datatype StyleType = FILL | TEXT | EFFECT | GRID

record FigmaStyle =
  style_key :: string
  style_name :: string
  style_description :: string
  styleType :: StyleType

text \<open>\<^verbatim>\<open>FigmaFile\<close>; its \<^verbatim>\<open>components\<close> table is read by none of the functions below.\<close>

record FigmaFile =
  file_name :: string
  file_lastModified :: string
  file_thumbnailUrl :: string
  file_version :: string
  file_document :: FigmaNode
  file_styles :: "(string \<times> FigmaStyle) list"
  file_schemaVersion :: int

subsection \<open>The frames route: traversal\<close>

record FrameSummary =
  frame_id :: string
  frame_name :: string
  frame_pageName :: string
  frame_width :: int
  frame_height :: int
  frame_depth :: nat

definition MAX_TRAVERSAL_DEPTH :: nat where
  "MAX_TRAVERSAL_DEPTH = 10"

definition MAX_FRAMES :: nat where
  "MAX_FRAMES = 500"

text \<open>
  Lines 63-78 of \<^verbatim>\<open>collectFrames\<close>: a node of type FRAME whose bounding box is present
  with positive width and height is pushed onto the accumulator.
\<close>

definition pushFrame ::
  "FigmaNode \<Rightarrow> string \<Rightarrow> nat \<Rightarrow> FrameSummary list \<Rightarrow> FrameSummary list" where
  "pushFrame node pageName depth frames =
     (if node_type node = ''FRAME'' then
        (case absoluteBoundingBox node of
           None \<Rightarrow> frames
         | Some boundingBox \<Rightarrow>
             if bbox_width boundingBox > 0 \<and> bbox_height boundingBox > 0 then
               frames @ [\<lparr>frame_id = node_id node,
                          frame_name = or_default (node_name node) ''Unnamed Frame'',
                          frame_pageName = pageName,
                          frame_width = Math_round (bbox_width boundingBox),
                          frame_height = Math_round (bbox_height boundingBox),
                          frame_depth = depth\<rparr>]
             else frames)
      else frames)"

text \<open>
  \<^verbatim>\<open>collectFrames(node, pageName, depth, frames)\<close>; \<open>collectChildren\<close> is its
  \<^verbatim>\<open>for (const child of node.children)\<close> loop, with the \<^verbatim>\<open>break\<close> at the frame limit.
  The \<^verbatim>\<open>try\<close> around the recursive call has nothing to catch: no step of the body raises.
\<close>

fun collectFrames ::
  "FigmaNode \<Rightarrow> string \<Rightarrow> nat \<Rightarrow> FrameSummary list \<Rightarrow> FrameSummary list"
and collectChildren ::
  "FigmaNode list \<Rightarrow> string \<Rightarrow> nat \<Rightarrow> FrameSummary list \<Rightarrow> FrameSummary list"
where
  "collectFrames (FigmaNode i n t bb cs) pageName depth frames =
     (if depth > MAX_TRAVERSAL_DEPTH then frames
      else if length frames \<ge> MAX_FRAMES then frames
      else
        (let frames1 = pushFrame (FigmaNode i n t bb cs) pageName depth frames in
         case cs of
           None \<Rightarrow> frames1
         | Some kids \<Rightarrow> collectChildren kids pageName (depth + 1) frames1))"
| "collectChildren [] pageName depth frames = frames"
| "collectChildren (child # rest) pageName depth frames =
     (if length frames \<ge> MAX_FRAMES then frames
      else collectChildren rest pageName depth (collectFrames child pageName depth frames))"

text \<open>The loop over the pages in \<^verbatim>\<open>extractFramesFromDocument\<close>.\<close>

fun collectPages :: "FigmaNode list \<Rightarrow> FrameSummary list \<Rightarrow> FrameSummary list" where
  "collectPages [] frames = frames"
| "collectPages (page # rest) frames =
     (if length frames \<ge> MAX_FRAMES then frames
      else
        (let pageName = or_default (node_name page) ''Unnamed Page'' in
         if node_type page \<noteq> ''CANVAS'' then collectPages rest frames
         else collectPages rest (collectFrames page pageName 0 frames)))"

definition extractFramesFromDocument :: "FigmaNode \<Rightarrow> FrameSummary list" where
  "extractFramesFromDocument document =
     (case children document of
        None \<Rightarrow> []
      | Some pages \<Rightarrow> collectPages pages [])"

text \<open>Auxiliary notions used to state properties of the traversal.\<close>

text \<open>All nodes of a tree, the root first.\<close>

fun subnodes :: "FigmaNode \<Rightarrow> FigmaNode list"
and subnodes_list :: "FigmaNode list \<Rightarrow> FigmaNode list"
where
  "subnodes (FigmaNode i n t bb cs) =
     FigmaNode i n t bb cs # (case cs of None \<Rightarrow> [] | Some kids \<Rightarrow> subnodes_list kids)"
| "subnodes_list [] = []"
| "subnodes_list (child # rest) = subnodes child @ subnodes_list rest"

text \<open>The tree cut below level \<open>k\<close>: the nodes at level \<open>k\<close> lose their children.\<close>

fun cutBelow :: "nat \<Rightarrow> FigmaNode \<Rightarrow> FigmaNode" where
  "cutBelow 0 (FigmaNode i n t bb cs) = FigmaNode i n t bb None"
| "cutBelow (Suc k) (FigmaNode i n t bb cs) =
     FigmaNode i n t bb (map_option (map (cutBelow k)) cs)"

text \<open>A node of type FRAME whose bounding box is present with positive width and height.\<close>

definition isValidFrame :: "FigmaNode \<Rightarrow> bool" where
  "isValidFrame node =
     (node_type node = ''FRAME'' \<and>
      (case absoluteBoundingBox node of
         None \<Rightarrow> False
       | Some b \<Rightarrow> 0 < bbox_width b \<and> 0 < bbox_height b))"

text \<open>Sample trees: a chain of \<open>n + 1\<close> nested frames, and a document of one page with
  \<open>n\<close> sibling frames.\<close>

definition sampleBox :: FigmaBoundingBox where
  "sampleBox = \<lparr>bbox_x = 0, bbox_y = 0, bbox_width = 320, bbox_height = 200\<rparr>"

fun frameChain :: "nat \<Rightarrow> FigmaNode" where
  "frameChain 0 = FigmaNode ''1:0'' ''Inner'' ''FRAME'' (Some sampleBox) None"
| "frameChain (Suc n) = FigmaNode ''1:1'' ''Outer'' ''FRAME'' (Some sampleBox) (Some [frameChain n])"

definition sampleFrame :: FigmaNode where
  "sampleFrame = FigmaNode ''2:1'' ''Card'' ''FRAME'' (Some sampleBox) None"

definition siblingFrames :: "nat \<Rightarrow> FigmaNode" where
  "siblingFrames n =
     FigmaNode ''0:0'' ''Document'' ''DOCUMENT'' None
       (Some [FigmaNode ''0:1'' ''Page 1'' ''CANVAS'' None (Some (replicate n sampleFrame))])"

definition cardSummary :: "string \<Rightarrow> nat \<Rightarrow> FrameSummary" where
  "cardSummary pageName depth =
     \<lparr>frame_id = ''2:1'', frame_name = ''Card'', frame_pageName = pageName,
      frame_width = 320, frame_height = 200, frame_depth = depth\<rparr>"

text \<open>A page with a frame without a box, one of width 0 (holding a proper frame), one of
  height 0, and a proper one.\<close>

definition noBoxFrame :: FigmaNode where
  "noBoxFrame = FigmaNode ''3:1'' ''No box'' ''FRAME'' None None"

definition zeroWidthFrame :: FigmaNode where
  "zeroWidthFrame =
     FigmaNode ''3:2'' ''Zero width'' ''FRAME''
       (Some \<lparr>bbox_x = 0, bbox_y = 0, bbox_width = 0, bbox_height = 50\<rparr>)
       (Some [sampleFrame])"

definition mixedPage :: FigmaNode where
  "mixedPage =
     FigmaNode ''0:1'' ''Page 1'' ''CANVAS'' None
       (Some [noBoxFrame, zeroWidthFrame,
              FigmaNode ''3:3'' ''Zero height'' ''FRAME''
                (Some \<lparr>bbox_x = 0, bbox_y = 0, bbox_width = 50, bbox_height = 0\<rparr>) None,
              FigmaNode ''3:4'' ''Hero'' ''FRAME''
                (Some \<lparr>bbox_x = 0, bbox_y = 0, bbox_width = 1439.5, bbox_height = 900.4\<rparr>)
                None])"

definition sampleFile :: "FigmaNode \<Rightarrow> FigmaFile" where
  "sampleFile document =
     \<lparr>file_name = ''Design'', file_lastModified = ''2025-11-13T15:22:39Z'',
      file_thumbnailUrl = [], file_version = ''42'', file_document = document,
      file_styles = [], file_schemaVersion = 0\<rparr>"

text \<open>The list \<open>ys\<close> is \<open>xs\<close> followed by new elements that all satisfy \<open>P\<close>.\<close>

definition extendsWith :: "('a \<Rightarrow> bool) \<Rightarrow> 'a list \<Rightarrow> 'a list \<Rightarrow> bool" where
  "extendsWith P xs ys =
     (take (length xs) ys = xs \<and> list_all P (drop (length xs) ys))"

subsection \<open>The baseline generator: design tokens\<close>

datatype ResolvedType = BOOLEAN | FLOAT | STRING | COLOR

text \<open>
  A value of \<^verbatim>\<open>valuesByMode\<close> (typed \<^verbatim>\<open>unknown\<close>): a boolean, a number, a string,
  \<^verbatim>\<open>null\<close>, or an object. Of an object the code reads the properties \<^verbatim>\<open>r\<close>,
  \<^verbatim>\<open>g\<close>, \<^verbatim>\<open>b\<close> and \<^verbatim>\<open>a\<close> only (a \<^verbatim>\<open>FigmaColor\<close>, or a variable alias, which has
  none of them), so an object is modelled by these four, each absent or a number.
\<close>

datatype ModeValue =
  ModeBoolean bool
| ModeNumber real
| ModeString string
| ModeNull
| ModeObject (prop_r: "real option") (prop_g: "real option")
             (prop_b: "real option") (prop_a: "real option")

record FigmaVariable =
  var_id :: string
  var_name :: string
  var_key :: string
  variableCollectionId :: string
  resolvedType :: ResolvedType
  valuesByMode :: "(string \<times> ModeValue) list"

record TypographyToken =
  fontFamily :: string
  fontSize :: real
  fontWeight :: real
  lineHeight :: real

record RGB =
  rgb_r :: int
  rgb_g :: int
  rgb_b :: int

record ColorToken =
  hex :: string
  rgb :: RGB
  opacity :: real

record ShadowToken =
  shadow_type :: string
  shadow_color :: ColorToken
  shadow_offset :: "real \<times> real"
  shadow_blur :: real
  shadow_spread :: real

record ExtractedTokens =
  tokens_typography :: "string \<rightharpoonup> TypographyToken"
  tokens_colors :: "string \<rightharpoonup> ColorToken"
  tokens_spacing :: "string \<rightharpoonup> real"
  tokens_radii :: "string \<rightharpoonup> real"
  tokens_shadows :: "string \<rightharpoonup> ShadowToken"

text \<open>
  \<^verbatim>\<open>modeValues[Object.keys(modeValues)[0]]\<close>: the value of the first key, \<^verbatim>\<open>undefined\<close>
  (here \<open>None\<close>) when there is no key.
\<close>

definition firstModeValue :: "(string \<times> ModeValue) list \<Rightarrow> ModeValue option" where
  "firstModeValue modeValues =
     (case map fst modeValues of
        [] \<Rightarrow> None
      | firstModeId # _ \<Rightarrow> map_of modeValues firstModeId)"

text \<open>\<^verbatim>\<open>rgbToHex\<close>, with its local \<^verbatim>\<open>toHex\<close>; the channels it is given are integers.\<close>

definition toHex :: "int \<Rightarrow> string" where
  "toHex n =
     (let hex = toString16 (nat (max 0 (min 255 n)))
      in if length hex = 1 then ''0'' @ hex else hex)"

definition rgbToHex :: "int \<Rightarrow> int \<Rightarrow> int \<Rightarrow> string" where
  "rgbToHex r g b = ''#'' @ toHex r @ toHex g @ toHex b"

text \<open>\<^verbatim>\<open>(color.r || 0)\<close> and \<^verbatim>\<open>color.a ?? 1\<close>.\<close>

definition or_zero :: "real option \<Rightarrow> real" where
  "or_zero v = (case v of None \<Rightarrow> 0 | Some c \<Rightarrow> c)"

definition or_one :: "real option \<Rightarrow> real" where
  "or_one v = (case v of None \<Rightarrow> 1 | Some c \<Rightarrow> c)"

text \<open>Lines 302-314: the token built from a first-mode value that is an object.\<close>

definition colorTokenOf :: "ModeValue option \<Rightarrow> ColorToken option" where
  "colorTokenOf colorValue =
     (case colorValue of
        Some (ModeObject cr cg cb ca) \<Rightarrow>
          (let r = Math_round (times_double (or_zero cr) 255);
               g = Math_round (times_double (or_zero cg) 255);
               b = Math_round (times_double (or_zero cb) 255);
               a = or_one ca
           in Some \<lparr>hex = rgbToHex r g b,
                    rgb = \<lparr>rgb_r = r, rgb_g = g, rgb_b = b\<rparr>,
                    opacity = a\<rparr>)
      | _ \<Rightarrow> None)"

text \<open>
  \<^verbatim>\<open>extractColorTokens\<close>: the body of the loop over \<^verbatim>\<open>Object.entries(variables)\<close>
  for one entry, and the loop.
\<close>

definition extractColorTokens_body ::
  "string \<Rightarrow> FigmaVariable \<Rightarrow> (string \<rightharpoonup> ColorToken) \<Rightarrow> (string \<rightharpoonup> ColorToken)" where
  "extractColorTokens_body vid variable colors =
     (if resolvedType variable \<noteq> COLOR then colors
      else
        (let name = or_default (var_name variable) (''color-'' @ vid) in
         case colorTokenOf (firstModeValue (valuesByMode variable)) of
           None \<Rightarrow> colors
         | Some token \<Rightarrow> setProperty name token colors))"

fun extractColorTokens_loop ::
  "(string \<times> FigmaVariable) list \<Rightarrow> (string \<rightharpoonup> ColorToken) \<Rightarrow> (string \<rightharpoonup> ColorToken)" where
  "extractColorTokens_loop [] colors = colors"
| "extractColorTokens_loop ((vid, variable) # rest) colors =
     extractColorTokens_loop rest (extractColorTokens_body vid variable colors)"

definition extractColorTokens :: "(string \<times> FigmaVariable) list \<Rightarrow> (string \<rightharpoonup> ColorToken)" where
  "extractColorTokens variables = extractColorTokens_loop variables Map.empty"

text \<open>
  Spacing, radii, typography and shadows are written the same way: the body of the loop
  for one entry (each \<^verbatim>\<open>continue\<close> leaves the map as it is) and the loop. Typography and
  shadows store fixed placeholder values per TEXT and EFFECT style.
\<close>

definition isSpacing :: "string \<Rightarrow> bool" where
  "isSpacing name =
     (str_includes (toLowerCase name) ''spacing'' \<or>
      str_includes (toLowerCase name) ''space'' \<or>
      str_includes (toLowerCase name) ''gap'' \<or>
      str_includes (toLowerCase name) ''margin'' \<or>
      str_includes (toLowerCase name) ''padding'')"

definition extractSpacingTokens_body ::
  "string \<Rightarrow> FigmaVariable \<Rightarrow> (string \<rightharpoonup> real) \<Rightarrow> (string \<rightharpoonup> real)" where
  "extractSpacingTokens_body vid variable spacing =
     (if resolvedType variable \<noteq> FLOAT then spacing
      else
        (let name = or_default (var_name variable) (''spacing-'' @ vid) in
         if \<not> isSpacing name then spacing
         else
           (case firstModeValue (valuesByMode variable) of
              Some (ModeNumber v) \<Rightarrow> setProperty name v spacing
            | _ \<Rightarrow> spacing)))"

fun extractSpacingTokens_loop ::
  "(string \<times> FigmaVariable) list \<Rightarrow> (string \<rightharpoonup> real) \<Rightarrow> (string \<rightharpoonup> real)" where
  "extractSpacingTokens_loop [] spacing = spacing"
| "extractSpacingTokens_loop ((vid, variable) # rest) spacing =
     extractSpacingTokens_loop rest (extractSpacingTokens_body vid variable spacing)"

definition extractSpacingTokens :: "(string \<times> FigmaVariable) list \<Rightarrow> (string \<rightharpoonup> real)" where
  "extractSpacingTokens variables = extractSpacingTokens_loop variables Map.empty"

definition isRadius :: "string \<Rightarrow> bool" where
  "isRadius name =
     (str_includes (toLowerCase name) ''radius'' \<or>
      str_includes (toLowerCase name) ''corner'' \<or>
      str_includes (toLowerCase name) ''rounded'')"

definition extractRadiiTokens_body ::
  "string \<Rightarrow> FigmaVariable \<Rightarrow> (string \<rightharpoonup> real) \<Rightarrow> (string \<rightharpoonup> real)" where
  "extractRadiiTokens_body vid variable radii =
     (if resolvedType variable \<noteq> FLOAT then radii
      else
        (let name = or_default (var_name variable) (''radius-'' @ vid) in
         if \<not> isRadius name then radii
         else
           (case firstModeValue (valuesByMode variable) of
              Some (ModeNumber v) \<Rightarrow> setProperty name v radii
            | _ \<Rightarrow> radii)))"

fun extractRadiiTokens_loop ::
  "(string \<times> FigmaVariable) list \<Rightarrow> (string \<rightharpoonup> real) \<Rightarrow> (string \<rightharpoonup> real)" where
  "extractRadiiTokens_loop [] radii = radii"
| "extractRadiiTokens_loop ((vid, variable) # rest) radii =
     extractRadiiTokens_loop rest (extractRadiiTokens_body vid variable radii)"

definition extractRadiiTokens :: "(string \<times> FigmaVariable) list \<Rightarrow> (string \<rightharpoonup> real)" where
  "extractRadiiTokens variables = extractRadiiTokens_loop variables Map.empty"

definition extractTypographyTokens_body ::
  "string \<Rightarrow> FigmaStyle \<Rightarrow> (string \<rightharpoonup> TypographyToken) \<Rightarrow> (string \<rightharpoonup> TypographyToken)" where
  "extractTypographyTokens_body sid style typo =
     (if styleType style \<noteq> TEXT then typo
      else
        (let name = or_default (style_name style) (''text-'' @ sid) in
         setProperty name
           \<lparr>fontFamily = ''Unknown'', fontSize = 16, fontWeight = 400, lineHeight = 3 / 2\<rparr>
           typo))"

fun extractTypographyTokens_loop ::
  "(string \<times> FigmaStyle) list \<Rightarrow> (string \<rightharpoonup> TypographyToken) \<Rightarrow> (string \<rightharpoonup> TypographyToken)" where
  "extractTypographyTokens_loop [] typo = typo"
| "extractTypographyTokens_loop ((sid, style) # rest) typo =
     extractTypographyTokens_loop rest (extractTypographyTokens_body sid style typo)"

definition extractTypographyTokens ::
  "(string \<times> FigmaStyle) list \<Rightarrow> (string \<rightharpoonup> TypographyToken)" where
  "extractTypographyTokens styles = extractTypographyTokens_loop styles Map.empty"

definition extractShadowTokens_body ::
  "string \<Rightarrow> FigmaStyle \<Rightarrow> (string \<rightharpoonup> ShadowToken) \<Rightarrow> (string \<rightharpoonup> ShadowToken)" where
  "extractShadowTokens_body sid style sh =
     (if styleType style \<noteq> EFFECT then sh
      else
        (let name = or_default (style_name style) (''shadow-'' @ sid) in
         setProperty name
           \<lparr>shadow_type = ''DROP_SHADOW'',
            shadow_color = \<lparr>hex = ''#000000'',
                            rgb = \<lparr>rgb_r = 0, rgb_g = 0, rgb_b = 0\<rparr>,
                            opacity = 1 / 4\<rparr>,
            shadow_offset = (0, 4), shadow_blur = 8, shadow_spread = 0\<rparr>
           sh))"

fun extractShadowTokens_loop ::
  "(string \<times> FigmaStyle) list \<Rightarrow> (string \<rightharpoonup> ShadowToken) \<Rightarrow> (string \<rightharpoonup> ShadowToken)" where
  "extractShadowTokens_loop [] sh = sh"
| "extractShadowTokens_loop ((sid, style) # rest) sh =
     extractShadowTokens_loop rest (extractShadowTokens_body sid style sh)"

definition extractShadowTokens ::
  "(string \<times> FigmaStyle) list \<Rightarrow> (string \<rightharpoonup> ShadowToken)" where
  "extractShadowTokens styles = extractShadowTokens_loop styles Map.empty"


definition floatVariable :: "string \<Rightarrow> ModeValue \<Rightarrow> FigmaVariable" where
  "floatVariable name v =
     \<lparr>var_id = ''VariableID:7:3'', var_name = name, var_key = ''k7'',
      variableCollectionId = ''VariableCollectionId:1:0'', resolvedType = FLOAT,
      valuesByMode = [(''1:0'', v)]\<rparr>"

subsection \<open>The baseline generator: components\<close>

record Bounds =
  bounds_x :: int
  bounds_y :: int
  bounds_width :: int
  bounds_height :: int

record FigmaComponent =
  comp_id :: string
  comp_name :: string
  comp_type :: string
  comp_bounds :: Bounds

definition isComponent :: "FigmaNode \<Rightarrow> bool" where
  "isComponent node =
     (node_type node = ''COMPONENT'' \<or> node_type node = ''INSTANCE'' \<or>
      node_type node = ''FRAME'' \<or> node_type node = ''GROUP'')"

text \<open>Lines 441-458 of \<^verbatim>\<open>extractComponentsFromNode\<close>: the entry for the node itself.\<close>

definition pushComponent :: "FigmaNode \<Rightarrow> FigmaComponent list \<Rightarrow> FigmaComponent list" where
  "pushComponent node components =
     (case absoluteBoundingBox node of
        None \<Rightarrow> components
      | Some bbox \<Rightarrow>
          if isComponent node \<and> bbox_width bbox > 0 \<and> bbox_height bbox > 0 then
            components @ [\<lparr>comp_id = node_id node,
                            comp_name = or_default (node_name node) ''Unnamed'',
                            comp_type = node_type node,
                            comp_bounds = \<lparr>bounds_x = Math_round (bbox_x bbox),
                                            bounds_y = Math_round (bbox_y bbox),
                                            bounds_width = Math_round (bbox_width bbox),
                                            bounds_height = Math_round (bbox_height bbox)\<rparr>\<rparr>]
          else components)"

text \<open>
  \<^verbatim>\<open>extractComponentsFromNode(node, depth)\<close>; \<open>extractComponentsFromChildren\<close> is its
  loop, which appends what each child yields to the local array.
\<close>

fun extractComponentsFromNode :: "FigmaNode \<Rightarrow> nat \<Rightarrow> FigmaComponent list"
and extractComponentsFromChildren ::
  "FigmaNode list \<Rightarrow> nat \<Rightarrow> FigmaComponent list \<Rightarrow> FigmaComponent list"
where
  "extractComponentsFromNode (FigmaNode i n t bb cs) depth =
     (if depth > 10 then []
      else
        (let components = pushComponent (FigmaNode i n t bb cs) [] in
         case cs of
           None \<Rightarrow> components
         | Some kids \<Rightarrow> extractComponentsFromChildren kids depth components))"
| "extractComponentsFromChildren [] depth components = components"
| "extractComponentsFromChildren (child # rest) depth components =
     extractComponentsFromChildren rest depth
       (components @ extractComponentsFromNode child (depth + 1))"

text \<open>\<^verbatim>\<open>findNodeById\<close>: the first node with the id, in document order.\<close>

fun findNodeById :: "FigmaNode \<Rightarrow> string \<Rightarrow> FigmaNode option"
and findNodeById_children :: "FigmaNode list \<Rightarrow> string \<Rightarrow> FigmaNode option"
where
  "findNodeById (FigmaNode i n t bb cs) targetId =
     (if i = targetId then Some (FigmaNode i n t bb cs)
      else case cs of
             None \<Rightarrow> None
           | Some kids \<Rightarrow> findNodeById_children kids targetId)"
| "findNodeById_children [] targetId = None"
| "findNodeById_children (child # rest) targetId =
     (case findNodeById child targetId of
        Some found \<Rightarrow> Some found
      | None \<Rightarrow> findNodeById_children rest targetId)"

subsection \<open>The baseline generator: the snapshot store\<close>

record Project =
  project_id :: string
  project_name :: string
  figmaFileKey :: "string option"
  figmaFrameId :: "string option"

record FigmaBaselineData =
  data_tokens :: ExtractedTokens
  data_components :: "FigmaComponent list"
  data_version :: string
  data_capturedAt :: int
  metadata_fileName :: string
  metadata_frameName :: string
  metadata_lastModified :: string


text \<open>
  What the generator is given from outside: the outcome of
  \<^verbatim>\<open>fetchFigmaVariablesAndStyles\<close> (the file and \<^verbatim>\<open>variables.meta.variables\<close>, or the
  exception), the clock reading for \<^verbatim>\<open>capturedAt\<close>, and the id and the creation time the
  database gives a new row.
\<close>

record BuildEnv =
  build_fetched :: "error + (FigmaFile \<times> (string \<times> FigmaVariable) list)"
  build_capturedAt :: int
  build_newId :: string
  build_createdAt :: int






text \<open>Steps 3 to 6: the payload built from the fetched file and variables.\<close>

definition buildBaselineData ::
  "BuildEnv \<Rightarrow> FigmaFile \<Rightarrow> (string \<times> FigmaVariable) list \<Rightarrow> FigmaNode \<Rightarrow> FigmaBaselineData" where
  "buildBaselineData env file variables selectedFrame =
     \<lparr>data_tokens =
        \<lparr>tokens_typography = extractTypographyTokens (file_styles file),
         tokens_colors = extractColorTokens variables,
         tokens_spacing = extractSpacingTokens variables,
         tokens_radii = extractRadiiTokens variables,
         tokens_shadows = extractShadowTokens (file_styles file)\<rparr>,
      data_components = extractComponentsFromNode selectedFrame 0,
      data_version = file_version file,
      data_capturedAt = build_capturedAt env,
      metadata_fileName = file_name file,
      metadata_frameName = node_name selectedFrame,
      metadata_lastModified = file_lastModified file\<rparr>"





subsection \<open>The Figma client: credentials and token refresh\<close>

text \<open>A row of the table \<^verbatim>\<open>FigmaCredential\<close>; \<^verbatim>\<open>projectId\<close> is unique.\<close>

record FigmaCredential =
  cred_id :: string
  cred_projectId :: string
  accessToken :: string
  refreshToken :: string
  accessTokenExpiresAt :: int
  cred_createdAt :: int
  cred_updatedAt :: int

record FigmaTokenRefreshResponse =
  access_token :: string
  refresh_token :: string
  expires_in :: int

text \<open>
  An HTTP response as \<^verbatim>\<open>fetch\<close> resolves it: status, status text, and what
  \<^verbatim>\<open>response.json()\<close> yields (or raises).
\<close>

record 'a HttpResponse =
  resp_status :: int
  resp_statusText :: string
  resp_json :: "error + 'a"

definition resp_ok :: "'a HttpResponse \<Rightarrow> bool" where
  "resp_ok response = (200 \<le> resp_status response \<and> resp_status response \<le> 299)"

text \<open>
  The surroundings of the client: the three clock readings of
  \<^verbatim>\<open>refreshAccessTokenIfNeeded\<close> (at the expiry check, after the response, at the
  update), the environment variables, \<^verbatim>\<open>decrypt\<close> and \<^verbatim>\<open>encrypt\<close> of \<^verbatim>\<open>lib/crypto\<close>,
  the outcome of the request to the token endpoint for a refresh token, the outcome of a
  request to an API endpoint with a bearer token, and the message of a failing
  credential query.
\<close>

record FigmaEnv =
  now_check :: int
  now_response :: int
  now_update :: int
  FIGMA_CLIENT_ID :: "string option"
  FIGMA_CLIENT_SECRET :: "string option"
  ENCRYPTION_KEY :: "string option"
  decrypt :: "string \<Rightarrow> error + string"
  encrypt :: "string \<Rightarrow> error + string"
  tokenFetch :: "string \<Rightarrow> error + FigmaTokenRefreshResponse HttpResponse"
  fileFetch :: "string \<Rightarrow> string \<Rightarrow> error + FigmaFile HttpResponse"
  credentialQueryError :: "string option"

definition getFigmaCredentialForProject ::
  "FigmaEnv \<Rightarrow> FigmaCredential list \<Rightarrow> string \<Rightarrow> error + FigmaCredential option" where
  "getFigmaCredentialForProject env table projectId =
     (case credentialQueryError env of
        Some message \<Rightarrow> Inl (Error (''Failed to fetch Figma credentials: '' @ message))
      | None \<Rightarrow> Inr (find (\<lambda>c. cred_projectId c = projectId) table))"

definition expiryBuffer :: int where
  "expiryBuffer = 2 * 60 * 1000"

text \<open>Decrypt-on-read: the stored value itself when no key is set or decryption fails.\<close>

definition decryptOrRaw :: "FigmaEnv \<Rightarrow> string \<Rightarrow> string" where
  "decryptOrRaw env stored =
     (if falsy (ENCRYPTION_KEY env) then stored
      else case decrypt env stored of Inl _ \<Rightarrow> stored | Inr plain \<Rightarrow> plain)"

text \<open>
  Lines 279-291: both tokens are encrypted inside one \<^verbatim>\<open>try\<close>; when the second call
  raises, the first token is already replaced.
\<close>

definition encryptTokens :: "FigmaEnv \<Rightarrow> string \<Rightarrow> string \<Rightarrow> string \<times> string" where
  "encryptTokens env access refresh =
     (if falsy (ENCRYPTION_KEY env) then (access, refresh)
      else case encrypt env access of
             Inl _ \<Rightarrow> (access, refresh)
           | Inr encryptedAccessToken \<Rightarrow>
               (case encrypt env refresh of
                  Inl _ \<Rightarrow> (encryptedAccessToken, refresh)
                | Inr encryptedRefreshToken \<Rightarrow> (encryptedAccessToken, encryptedRefreshToken)))"

text \<open>\<^verbatim>\<open>prisma.figmaCredential.update({where: {id}, data: ...})\<close>.\<close>

definition updateCredential ::
  "FigmaCredential list \<Rightarrow> string \<Rightarrow> string \<Rightarrow> string \<Rightarrow> int \<Rightarrow> int \<Rightarrow>
     error + (FigmaCredential list \<times> FigmaCredential)" where
  "updateCredential table cid access refresh expiresAt updated =
     (case find (\<lambda>c. cred_id c = cid) table of
        None \<Rightarrow> Inl (Error ''Record to update not found.'')
      | Some row \<Rightarrow>
          (let change = (\<lambda>c. c\<lparr>accessToken := access, refreshToken := refresh,
                                accessTokenExpiresAt := expiresAt, cred_updatedAt := updated\<rparr>)
           in Inr (map (\<lambda>c. if cred_id c = cid then change c else c) table, change row)))"

definition refreshAccessTokenIfNeeded ::
  "FigmaEnv \<Rightarrow> FigmaCredential list \<Rightarrow> FigmaCredential \<Rightarrow>
     error + (FigmaCredential list \<times> FigmaCredential)" where
  "refreshAccessTokenIfNeeded env table credential =
     (let isExpiringSoon = accessTokenExpiresAt credential - now_check env < expiryBuffer in
      if \<not> isExpiringSoon then Inr (table, credential)
      else if falsy (FIGMA_CLIENT_ID env) \<or> falsy (FIGMA_CLIENT_SECRET env)
      then Inl (FigmaApiError ''Figma OAuth credentials not configured'' 500 ''/api/oauth/token'')
      else
        (case tokenFetch env (decryptOrRaw env (refreshToken credential)) of
           Inl e \<Rightarrow> Inl e
         | Inr response \<Rightarrow>
             if \<not> resp_ok response
             then Inl (FigmaApiError ''Failed to refresh Figma access token''
                         (resp_status response) ''/api/oauth/token'')
             else
               (case resp_json response of
                  Inl e \<Rightarrow> Inl e
                | Inr data \<Rightarrow>
                    (let newExpiresAt = now_response env + expires_in data * 1000;
                         (encryptedAccessToken, encryptedRefreshToken) =
                            encryptTokens env (access_token data) (refresh_token data)
                     in updateCredential table (cred_id credential)
                          encryptedAccessToken encryptedRefreshToken newExpiresAt
                          (now_update env)))))"

definition getFigmaAccessToken ::
  "FigmaEnv \<Rightarrow> FigmaCredential list \<Rightarrow> string \<Rightarrow> error + (FigmaCredential list \<times> string)" where
  "getFigmaAccessToken env table projectId =
     (case getFigmaCredentialForProject env table projectId of
        Inl e \<Rightarrow> Inl e
      | Inr None \<Rightarrow> Inl (Error (''Figma credentials not found for project '' @ projectId))
      | Inr (Some credential) \<Rightarrow>
          (case refreshAccessTokenIfNeeded env table credential of
             Inl e \<Rightarrow> Inl e
           | Inr (table', freshCredential) \<Rightarrow>
               Inr (table', decryptOrRaw env (accessToken freshCredential))))"

definition fetchFigmaFile ::
  "FigmaEnv \<Rightarrow> FigmaCredential list \<Rightarrow> string \<Rightarrow> string \<Rightarrow>
     error + (FigmaCredential list \<times> FigmaFile)" where
  "fetchFigmaFile env table projectId fileKey =
     (case getFigmaAccessToken env table projectId of
        Inl e \<Rightarrow> Inl e
      | Inr (table', token) \<Rightarrow>
          (let endpoint = ''/v1/files/'' @ fileKey in
           case fileFetch env endpoint token of
             Inl e \<Rightarrow> Inl e
           | Inr response \<Rightarrow>
               if \<not> resp_ok response
               then Inl (FigmaApiError (''Failed to fetch Figma file: '' @ resp_statusText response)
                           (resp_status response) endpoint)
               else (case resp_json response of
                       Inl e \<Rightarrow> Inl e
                     | Inr file \<Rightarrow> Inr (table', file))))"

subsection \<open>The frames route: the handler\<close>

record FramesMeta =
  meta_total :: nat
  meta_fileName :: string
  meta_fileVersion :: string
  meta_truncated :: bool

datatype Details = NoDetails | Details string | ZodIssues

text \<open>
  The JSON bodies the handler sends: the frames with their \<^verbatim>\<open>meta\<close>, or an error with
  optional \<^verbatim>\<open>details\<close> and \<^verbatim>\<open>needsOAuth\<close> (absent is \<open>False\<close>).
\<close>

datatype ResponseBody =
  FramesBody (body_frames: "FrameSummary list") (body_meta: FramesMeta)
| ErrorBody (body_error: string) (body_details: Details) (body_needsOAuth: bool)

record Response =
  response_status :: int
  response_body :: ResponseBody

text \<open>
  What a request meets: the query parameter, zod's \<^verbatim>\<open>cuid\<close> check, the tables
  \<^verbatim>\<open>Project\<close> and \<^verbatim>\<open>FigmaCredential\<close> as the handler's own two queries see them (lines
  205 and 238), the credential table as \<^verbatim>\<open>fetchFigmaFile\<close> sees it afterwards, the
  surroundings of the client, and the message of the error that the platform raises for a
  refused response status. When nothing else writes in between, the two credential tables
  are the same.
\<close>

record FramesRequest =
  searchParams_projectId :: "string option"
  zod_cuid :: "string \<Rightarrow> bool"
  projectTable :: "Project list"
  credentialsAtCheck :: "FigmaCredential list"
  credentialsAtFetch :: "FigmaCredential list"
  figmaEnv :: FigmaEnv
  responseStatusError :: "int \<Rightarrow> string"

text \<open>Step 5: the successful response.\<close>

definition framesResponse :: "FigmaFile \<Rightarrow> Response" where
  "framesResponse figmaFile =
     (let frames = extractFramesFromDocument (file_document figmaFile) in
      \<lparr>response_status = 200,
       response_body = FramesBody frames
         \<lparr>meta_total = length frames,
          meta_fileName = file_name figmaFile,
          meta_fileVersion = file_version figmaFile,
          meta_truncated = (length frames \<ge> MAX_FRAMES)\<rparr>\<rparr>)"

text \<open>
  \<^verbatim>\<open>NextResponse.json(body, {status})\<close> builds a response with a body, which the
  platform's \<^verbatim>\<open>Response\<close> constructor refuses (it throws) for a status outside 200 to
  599 and for a status that cannot carry a body.
\<close>

definition refusedStatus :: "int \<Rightarrow> bool" where
  "refusedStatus statusCode =
     (statusCode < 200 \<or> 599 < statusCode \<or>
      statusCode = 204 \<or> statusCode = 205 \<or> statusCode = 304)"

text \<open>
  The \<^verbatim>\<open>catch\<close> around \<^verbatim>\<open>fetchFigmaFile\<close> (lines 258-300): a response, or an error
  thrown: the caught error thrown again, or the platform's error for a refused status,
  whose message is \<open>statusError statusCode\<close>.
\<close>

definition handleFetchError :: "(int \<Rightarrow> string) \<Rightarrow> error \<Rightarrow> error + Response" where
  "handleFetchError statusError e =
     (case e of
        FigmaApiError message statusCode endpoint \<Rightarrow>
          if statusCode = 404 then
            Inr \<lparr>response_status = 404,
                 response_body = ErrorBody
                   ''Figma file not found. The file may have been deleted or moved.''
                   NoDetails False\<rparr>
          else if statusCode = 403 then
            Inr \<lparr>response_status = 403,
                 response_body = ErrorBody
                   ''Access denied to Figma file. Please reconnect Figma integration.''
                   NoDetails False\<rparr>
          else if refusedStatus statusCode then Inl (Error (statusError statusCode))
          else
            Inr \<lparr>response_status = statusCode,
                 response_body = ErrorBody
                   ''Failed to fetch Figma file. Please try again later.'' NoDetails False\<rparr>
      | Error message \<Rightarrow>
          if str_includes message ''No Figma credentials'' then
            Inr \<lparr>response_status = 400,
                 response_body = ErrorBody ''Figma not connected''
                   (Details ''Please connect your Figma account first.'') True\<rparr>
          else Inl (Error message))"

text \<open>The outer \<^verbatim>\<open>catch\<close>: the generic 500.\<close>

definition unexpectedError :: "error \<Rightarrow> Response" where
  "unexpectedError e =
     \<lparr>response_status = 500,
      response_body = ErrorBody ''An unexpected error occurred'' (Details (err_message e)) False\<rparr>"

definition GET :: "FramesRequest \<Rightarrow> Response" where
  \<open>GET request =
     (case searchParams_projectId request of
        None \<Rightarrow>
          \<lparr>response_status = 400,
           response_body = ErrorBody ''Invalid query parameters'' ZodIssues False\<rparr>
      | Some projectId \<Rightarrow>
          if \<not> zod_cuid request projectId then
            \<lparr>response_status = 400,
             response_body = ErrorBody ''Invalid query parameters'' ZodIssues False\<rparr>
          else
            (case find (\<lambda>p. project_id p = projectId) (projectTable request) of
               None \<Rightarrow>
                 \<lparr>response_status = 404,
                  response_body = ErrorBody ''Project not found'' NoDetails False\<rparr>
             | Some project \<Rightarrow>
                 (case figmaFileKey project of
                    None \<Rightarrow>
                      \<lparr>response_status = 400,
                       response_body = ErrorBody ''Missing figmaFileKey for project''
                         (Details ''This project is not linked to a Figma file. Please configure Figma integration first.'')
                         False\<rparr>
                  | Some fileKey \<Rightarrow>
                      if fileKey = [] then
                        \<lparr>response_status = 400,
                         response_body = ErrorBody ''Missing figmaFileKey for project''
                           (Details ''This project is not linked to a Figma file. Please configure Figma integration first.'')
                           False\<rparr>
                      else if find (\<lambda>c. cred_projectId c = projectId) (credentialsAtCheck request) = None
                      then
                        \<lparr>response_status = 400,
                         response_body = ErrorBody ''Figma not connected''
                           (Details ''Please connect your Figma account first by clicking "Connect Figma" on the project page.'')
                           True\<rparr>
                      else
                        (case fetchFigmaFile (figmaEnv request) (credentialsAtFetch request)
                                projectId fileKey of
                           Inl e \<Rightarrow>
                             (case handleFetchError (responseStatusError request) e of
                                Inr response \<Rightarrow> response
                              | Inl thrown \<Rightarrow> unexpectedError thrown)
                         | Inr (table', figmaFile) \<Rightarrow> framesResponse figmaFile))))\<close>

text \<open>
  Sample surroundings: a project linked to a file, its credential, a provider that
  answers a refresh with a token living \<open>expiresIn\<close> seconds, and an API that serves
  the given document. No encryption key is set. The sample \<^verbatim>\<open>cuid\<close> check accepts a
  \<^verbatim>\<open>c\<close> followed by eight or more characters other than space and hyphen.
\<close>

definition sampleProject :: Project where
  "sampleProject =
     \<lparr>project_id = ''clxy1234567890'', project_name = ''Landing page'',
      figmaFileKey = Some ''abc123'', figmaFrameId = Some ''2:1''\<rparr>"

definition sampleCredential :: "int \<Rightarrow> FigmaCredential" where
  "sampleCredential expiresAt =
     \<lparr>cred_id = ''cred_1'', cred_projectId = ''clxy1234567890'',
      accessToken = ''figu_old'', refreshToken = ''figr_old'',
      accessTokenExpiresAt = expiresAt, cred_createdAt = 0, cred_updatedAt = 0\<rparr>"

definition sampleEnv :: "FigmaNode \<Rightarrow> int \<Rightarrow> FigmaEnv" where
  "sampleEnv document expiresIn =
     \<lparr>now_check = 1000000, now_response = 1000000, now_update = 1000000,
      FIGMA_CLIENT_ID = Some ''client'', FIGMA_CLIENT_SECRET = Some ''secret'',
      ENCRYPTION_KEY = None,
      decrypt = (\<lambda>stored. Inl (Error ''Decryption failed: ENCRYPTION_KEY not configured'')),
      encrypt = (\<lambda>plain. Inl (Error ''Encryption failed: ENCRYPTION_KEY not configured'')),
      tokenFetch = (\<lambda>token.
        Inr \<lparr>resp_status = 200, resp_statusText = ''OK'',
             resp_json = Inr \<lparr>access_token = ''figu_new'', refresh_token = ''figr_new'',
                               expires_in = expiresIn\<rparr>\<rparr>),
      fileFetch = (\<lambda>endpoint token.
        Inr \<lparr>resp_status = 200, resp_statusText = ''OK'',
             resp_json = Inr (sampleFile document)\<rparr>),
      credentialQueryError = None\<rparr>"

definition sampleCuid :: "string \<Rightarrow> bool" where
  "sampleCuid s =
     (case s of
        [] \<Rightarrow> False
      | c # rest \<Rightarrow>
          (c = CHR ''c'' \<or> c = CHR ''C'') \<and> 8 \<le> length rest \<and>
          CHR '' '' \<notin> set rest \<and> CHR ''-'' \<notin> set rest)"

definition sampleRequest ::
  "FigmaNode \<Rightarrow> FigmaCredential list \<Rightarrow> FigmaCredential list \<Rightarrow> FramesRequest" where
  "sampleRequest document atCheck atFetch =
     \<lparr>searchParams_projectId = Some ''clxy1234567890'',
      zod_cuid = sampleCuid,
      projectTable = [sampleProject],
      credentialsAtCheck = atCheck,
      credentialsAtFetch = atFetch,
      figmaEnv = sampleEnv document 7776000,
      responseStatusError = (\<lambda>statusCode. ''Invalid response status code'')\<rparr>"

section \<open>Properties\<close>

subsection \<open>The traversal threads its accumulator\<close>

lemma extendsWith_iff:
  "extendsWith P xs ys \<longleftrightarrow> (\<exists>new. ys = xs @ new \<and> (\<forall>x\<in>set new. P x))"
proof
  assume h: "extendsWith P xs ys"
  then have "ys = xs @ drop (length xs) ys"
    by (metis append_take_drop_id extendsWith_def)
  moreover from h have "\<forall>x\<in>set (drop (length xs) ys). P x"
    by (simp add: extendsWith_def list_all_iff)
  ultimately show "\<exists>new. ys = xs @ new \<and> (\<forall>x\<in>set new. P x)" by blast
next
  assume "\<exists>new. ys = xs @ new \<and> (\<forall>x\<in>set new. P x)"
  then show "extendsWith P xs ys"
    by (auto simp: extendsWith_def list_all_iff)
qed

lemma extendsWith_refl: "extendsWith P xs xs"
  by (simp add: extendsWith_def)

lemma extendsWith_trans:
  assumes "extendsWith P xs ys" and "extendsWith P ys zs"
  shows "extendsWith P xs zs"
proof -
  from assms(1) obtain n1 where 1: "ys = xs @ n1" "\<forall>x\<in>set n1. P x"
    by (auto simp: extendsWith_iff)
  from assms(2) obtain n2 where 2: "zs = ys @ n2" "\<forall>x\<in>set n2. P x"
    by (auto simp: extendsWith_iff)
  have "zs = xs @ (n1 @ n2)" using 1(1) 2(1) by simp
  moreover have "\<forall>x\<in>set (n1 @ n2). P x" using 1(2) 2(2) by auto
  ultimately show ?thesis unfolding extendsWith_iff by blast
qed

lemma extendsWith_mono:
  assumes "extendsWith P xs ys" and "\<And>x. P x \<Longrightarrow> Q x"
  shows "extendsWith Q xs ys"
  using assms unfolding extendsWith_iff by blast

lemma pushFrame_cases:
  "pushFrame node p d frames = frames \<or>
   (isValidFrame node \<and> pushFrame node p d frames = frames @
      [\<lparr>frame_id = node_id node,
        frame_name = or_default (node_name node) ''Unnamed Frame'',
        frame_pageName = p,
        frame_width = Math_round (bbox_width (the (absoluteBoundingBox node))),
        frame_height = Math_round (bbox_height (the (absoluteBoundingBox node))),
        frame_depth = d\<rparr>])"
  by (auto simp: pushFrame_def isValidFrame_def split: option.splits)

lemma pushFrame_invalid: "\<not> isValidFrame node \<Longrightarrow> pushFrame node p d frames = frames"
  using pushFrame_cases by blast

lemma pushFrame_length: "length (pushFrame node p d frames) \<le> Suc (length frames)"
  using pushFrame_cases [of node p d frames] by auto

lemma pushFrame_children:
  "pushFrame (FigmaNode i n t bb cs') p d frames = pushFrame (FigmaNode i n t bb cs) p d frames"
  by (simp add: pushFrame_def split: option.splits)

text \<open>The traversal threads the accumulator: a general rule for properties of the new frames.\<close>

lemma collect_extendsWith:
  assumes push: "\<And>node p d frames. node \<in> set (subnodes tree) \<Longrightarrow> d \<le> MAX_TRAVERSAL_DEPTH \<Longrightarrow>
                   extendsWith P frames (pushFrame node p d frames)"
  shows "set (subnodes node) \<subseteq> set (subnodes tree) \<Longrightarrow>
           extendsWith P frames (collectFrames node pageName depth frames)"
    and "set (subnodes_list kids) \<subseteq> set (subnodes tree) \<Longrightarrow>
           extendsWith P frames (collectChildren kids pageName depth frames)"
proof (induction node pageName depth frames and kids pageName depth frames
        rule: collectFrames_collectChildren.induct)
  case (1 i n t bb cs pageName depth frames)
  let ?node = "FigmaNode i n t bb cs"
  show ?case
  proof (cases "depth > MAX_TRAVERSAL_DEPTH \<or> length frames \<ge> MAX_FRAMES")
    case True
    then show ?thesis by (auto simp: extendsWith_refl)
  next
    case False
    then have d: "\<not> depth > MAX_TRAVERSAL_DEPTH" and l: "\<not> MAX_FRAMES \<le> length frames" by auto
    let ?f1 = "pushFrame ?node pageName depth frames"
    have "?node \<in> set (subnodes tree)" using "1.prems" by auto
    then have p: "extendsWith P frames ?f1" using push d by simp
    show ?thesis
    proof (cases cs)
      case None
      with False p show ?thesis by simp
    next
      case (Some kids)
      have "set (subnodes_list kids) \<subseteq> set (subnodes tree)" using "1.prems" Some by auto
      then have "extendsWith P ?f1 (collectChildren kids pageName (depth + 1) ?f1)"
        using "1.IH" [OF d l refl Some] by simp
      with p have "extendsWith P frames (collectChildren kids pageName (depth + 1) ?f1)"
        by (rule extendsWith_trans)
      with False Some show ?thesis by simp
    qed
  qed
next
  case (2 pageName depth frames)
  show ?case by (simp add: extendsWith_refl)
next
  case (3 child rest pageName depth frames)
  show ?case
  proof (cases "MAX_FRAMES \<le> length frames")
    case True
    then show ?thesis by (simp add: extendsWith_refl)
  next
    case False
    have c: "set (subnodes child) \<subseteq> set (subnodes tree)"
      and r: "set (subnodes_list rest) \<subseteq> set (subnodes tree)" using "3.prems" by auto
    from "3.IH"(1) [OF False c] "3.IH"(2) [OF False r] have
      "extendsWith P frames (collectChildren rest pageName depth (collectFrames child pageName depth frames))"
      by (rule extendsWith_trans)
    with False show ?thesis by simp
  qed
qed

lemma collect_length:
  "length frames \<le> MAX_FRAMES \<Longrightarrow> length (collectFrames node pageName depth frames) \<le> MAX_FRAMES"
  "length frames \<le> MAX_FRAMES \<Longrightarrow> length (collectChildren kids pageName depth frames) \<le> MAX_FRAMES"
proof (induction node pageName depth frames and kids pageName depth frames
        rule: collectFrames_collectChildren.induct)
  case (1 i n t bb cs pageName depth frames)
  show ?case
  proof (cases "depth > MAX_TRAVERSAL_DEPTH \<or> length frames \<ge> MAX_FRAMES")
    case True
    with "1.prems" show ?thesis by auto
  next
    case False
    then have d: "\<not> depth > MAX_TRAVERSAL_DEPTH" and l: "\<not> MAX_FRAMES \<le> length frames" by auto
    let ?f1 = "pushFrame (FigmaNode i n t bb cs) pageName depth frames"
    have p: "length ?f1 \<le> MAX_FRAMES"
      using pushFrame_length [of "FigmaNode i n t bb cs" pageName depth frames] l by simp
    show ?thesis
    proof (cases cs)
      case None
      with False p show ?thesis by simp
    next
      case (Some kids)
      have "length (collectChildren kids pageName (depth + 1) ?f1) \<le> MAX_FRAMES"
        using "1.IH" [OF d l refl Some p] .
      with False Some show ?thesis by simp
    qed
  qed
next
  case (2 pageName depth frames)
  then show ?case by simp
next
  case (3 child rest pageName depth frames)
  show ?case
  proof (cases "MAX_FRAMES \<le> length frames")
    case True
    with "3.prems" show ?thesis by simp
  next
    case False
    have "length (collectFrames child pageName depth frames) \<le> MAX_FRAMES"
      using "3.IH"(1) [OF False "3.prems"] .
    then have "length (collectChildren rest pageName depth (collectFrames child pageName depth frames)) \<le> MAX_FRAMES"
      using "3.IH"(2) [OF False] by simp
    with False show ?thesis by simp
  qed
qed

lemma subnodes_self: "node \<in> set (subnodes node)"
  by (cases node) simp

lemma collect_depth:
  "extendsWith (\<lambda>f. frame_depth f \<le> MAX_TRAVERSAL_DEPTH) frames
     (collectFrames node pageName depth frames)"
proof (rule collect_extendsWith(1) [where tree = node])
  fix n p d fs
  assume "d \<le> MAX_TRAVERSAL_DEPTH"
  then show "extendsWith (\<lambda>f. frame_depth f \<le> MAX_TRAVERSAL_DEPTH) fs (pushFrame n p d fs)"
    using pushFrame_cases [of n p d fs] by (auto simp: extendsWith_iff)
qed simp

lemma collect_too_deep:
  "depth > MAX_TRAVERSAL_DEPTH \<Longrightarrow> collectFrames node p depth frames = frames"
  by (cases node) simp

lemma collectChildren_too_deep:
  "depth > MAX_TRAVERSAL_DEPTH \<Longrightarrow> collectChildren kids p depth frames = frames"
  by (induction kids arbitrary: frames) (simp_all add: collect_too_deep)

lemma collect_full:
  "length frames \<ge> MAX_FRAMES \<Longrightarrow> collectFrames node p depth frames = frames"
  by (cases node) simp

lemma cutBelow_leaf: "cutBelow k (FigmaNode i n t bb None) = FigmaNode i n t bb None"
  by (cases k) simp_all

lemma collect_cutBelow:
  "collectFrames node pageName depth frames =
     collectFrames (cutBelow (MAX_TRAVERSAL_DEPTH - depth) node) pageName depth frames"
  "collectChildren kids pageName depth frames =
     collectChildren (map (cutBelow (MAX_TRAVERSAL_DEPTH - depth)) kids) pageName depth frames"
proof (induction node pageName depth frames and kids pageName depth frames
        rule: collectFrames_collectChildren.induct)
  case (1 i n t bb cs pageName depth frames)
  let ?node = "FigmaNode i n t bb cs"
  show ?case
  proof (cases "depth > MAX_TRAVERSAL_DEPTH \<or> length frames \<ge> MAX_FRAMES")
    case True
    then show ?thesis
      using collect_too_deep collect_full by metis
  next
    case False
    then have d: "\<not> depth > MAX_TRAVERSAL_DEPTH" and l: "\<not> MAX_FRAMES \<le> length frames" by auto
    let ?f1 = "pushFrame ?node pageName depth frames"
    show ?thesis
    proof (cases cs)
      case None
      then show ?thesis by (simp only: cutBelow_leaf)
    next
      case (Some kids)
      have lhs: "collectFrames ?node pageName depth frames =
                 collectChildren kids pageName (depth + 1) ?f1"
        using d l Some by simp
      show ?thesis
      proof (cases "MAX_TRAVERSAL_DEPTH - depth")
        case 0
        with d have "depth + 1 > MAX_TRAVERSAL_DEPTH" by simp
        then have "collectChildren kids pageName (depth + 1) ?f1 = ?f1"
          by (rule collectChildren_too_deep)
        moreover have "collectFrames (FigmaNode i n t bb None) pageName depth frames =
                       pushFrame (FigmaNode i n t bb None) pageName depth frames"
          using d l by simp
        moreover have "pushFrame (FigmaNode i n t bb None) pageName depth frames = ?f1"
          by (rule pushFrame_children)
        ultimately show ?thesis using lhs 0 by simp
      next
        case (Suc k)
        then have k: "MAX_TRAVERSAL_DEPTH - (depth + 1) = k" by simp
        have "collectChildren kids pageName (depth + 1) ?f1 =
              collectChildren (map (cutBelow k) kids) pageName (depth + 1) ?f1"
          using "1.IH" [OF d l refl Some] k by simp
        moreover have "collectFrames (FigmaNode i n t bb (Some (map (cutBelow k) kids))) pageName depth frames =
              collectChildren (map (cutBelow k) kids) pageName (depth + 1)
                (pushFrame (FigmaNode i n t bb (Some (map (cutBelow k) kids))) pageName depth frames)"
          using d l by simp
        moreover have "pushFrame (FigmaNode i n t bb (Some (map (cutBelow k) kids))) pageName depth frames = ?f1"
          by (rule pushFrame_children)
        ultimately show ?thesis using lhs Suc Some by simp
      qed
    qed
  qed
next
  case (2 pageName depth frames)
  show ?case by simp
next
  case (3 child rest pageName depth frames)
  show ?case
  proof (cases "MAX_FRAMES \<le> length frames")
    case True
    then show ?thesis by simp
  next
    case False
    from "3.IH"(1) [OF False] "3.IH"(2) [OF False] False show ?thesis by simp
  qed
qed

lemma collectPages_extendsWith:
  assumes "\<And>page p frames. extendsWith P frames (collectFrames page p 0 frames)"
  shows "extendsWith P frames (collectPages pages frames)"
proof (induction pages arbitrary: frames)
  case Nil
  show ?case by (simp add: extendsWith_refl)
next
  case (Cons page rest)
  show ?case
  proof (cases "MAX_FRAMES \<le> length frames \<or> node_type page \<noteq> ''CANVAS''")
    case True
    then show ?thesis using Cons.IH by (auto simp: extendsWith_refl)
  next
    case False
    let ?p = "or_default (node_name page) ''Unnamed Page''"
    have "extendsWith P frames (collectPages rest (collectFrames page ?p 0 frames))"
      using assms Cons.IH by (rule extendsWith_trans)
    with False show ?thesis by (simp add: Let_def)
  qed
qed

lemma collectPages_length:
  "length frames \<le> MAX_FRAMES \<Longrightarrow> length (collectPages pages frames) \<le> MAX_FRAMES"
proof (induction pages arbitrary: frames)
  case Nil
  then show ?case by simp
next
  case (Cons page rest)
  then show ?case by (simp add: Let_def collect_length(1))
qed

lemma extract_length: "length (extractFramesFromDocument document) \<le> MAX_FRAMES"
  by (simp add: extractFramesFromDocument_def collectPages_length split: option.splits)

lemma extract_depth:
  "f \<in> set (extractFramesFromDocument document) \<Longrightarrow> frame_depth f \<le> MAX_TRAVERSAL_DEPTH"
proof -
  have "extendsWith (\<lambda>f. frame_depth f \<le> MAX_TRAVERSAL_DEPTH) [] (collectPages pages [])" for pages
    by (rule collectPages_extendsWith) (rule collect_depth)
  then have "\<forall>f\<in>set (collectPages pages []). frame_depth f \<le> MAX_TRAVERSAL_DEPTH" for pages
    by (simp add: extendsWith_def list_all_iff)
  then show "f \<in> set (extractFramesFromDocument document) \<Longrightarrow> frame_depth f \<le> MAX_TRAVERSAL_DEPTH"
    by (auto simp: extractFramesFromDocument_def split: option.splits)
qed

subsection \<open>C1: the traversal is bounded\<close>

text \<open>
  Claim C1. Started with at most 500 collected frames (the entry point starts with none),
  \<^verbatim>\<open>collectFrames\<close> returns at most 500 entries; what was already collected is returned
  unchanged at the front; no new frame comes from a node deeper than depth 10, and indeed
  the result does not depend on anything below depth 10 of the tree; when the depth or the
  count ceiling is already hit at the call, the accumulator is returned as it is. The same
  bounds hold for \<^verbatim>\<open>extractFramesFromDocument\<close>.
\<close>

theorem collectFrames_bounded:
  assumes "length frames \<le> MAX_FRAMES"
  shows "length (collectFrames node pageName depth frames) \<le> 500
       \<and> take (length frames) (collectFrames node pageName depth frames) = frames
       \<and> (\<forall>f\<in>set (drop (length frames) (collectFrames node pageName depth frames)).
             frame_depth f \<le> 10)
       \<and> collectFrames node pageName depth frames =
           collectFrames (cutBelow (10 - depth) node) pageName depth frames
       \<and> (10 < depth \<or> 500 \<le> length frames \<longrightarrow>
             collectFrames node pageName depth frames = frames)
       \<and> length (extractFramesFromDocument document) \<le> 500
       \<and> (\<forall>f\<in>set (extractFramesFromDocument document). frame_depth f \<le> 10)"
proof -
  have 1: "length (collectFrames node pageName depth frames) \<le> 500"
    using collect_length(1) [OF assms] by (simp add: MAX_FRAMES_def)
  have e: "extendsWith (\<lambda>f. frame_depth f \<le> 10) frames (collectFrames node pageName depth frames)"
    using collect_depth [of frames node pageName depth] by (simp add: MAX_TRAVERSAL_DEPTH_def)
  have 2: "take (length frames) (collectFrames node pageName depth frames) = frames"
    using e by (simp add: extendsWith_def)
  have 3: "\<forall>f\<in>set (drop (length frames) (collectFrames node pageName depth frames)).
             frame_depth f \<le> 10"
    using e by (simp add: extendsWith_def list_all_iff)
  have 4: "collectFrames node pageName depth frames =
           collectFrames (cutBelow (10 - depth) node) pageName depth frames"
    using collect_cutBelow(1) [of node pageName depth frames] by (simp add: MAX_TRAVERSAL_DEPTH_def)
  have 5: "10 < depth \<or> 500 \<le> length frames \<longrightarrow>
             collectFrames node pageName depth frames = frames"
    using collect_too_deep [of depth node pageName frames] collect_full [of frames node pageName depth]
    by (auto simp: MAX_TRAVERSAL_DEPTH_def MAX_FRAMES_def)
  have 6: "length (extractFramesFromDocument document) \<le> 500"
    using extract_length [of document] by (simp add: MAX_FRAMES_def)
  have 7: "\<forall>f\<in>set (extractFramesFromDocument document). frame_depth f \<le> 10"
    using extract_depth [of _ document] by (auto simp: MAX_TRAVERSAL_DEPTH_def)
  from 1 2 3 4 5 6 7 show ?thesis by blast
qed

theorem collectFrames_bounded_witness:
  "length ([] :: FrameSummary list) \<le> MAX_FRAMES
   \<and> map frame_depth (collectFrames (frameChain 14) ''Page 1'' 0 []) = [0, 1, 2, 3, 4, 5, 6, 7, 8, 9, 10]
   \<and> length (collectFrames (frameChain 14) ''Page 1'' 0 []) \<le> 500
   \<and> list_all (\<lambda>f. frame_depth f \<le> 10) (collectFrames (frameChain 14) ''Page 1'' 0 [])
   \<and> collectFrames (frameChain 14) ''Page 1'' 0 [] =
         collectFrames (cutBelow 10 (frameChain 14)) ''Page 1'' 0 []
   \<and> (10 < (11 :: nat) \<and> collectFrames (frameChain 14) ''Page 1'' 11 [] = [])"
proof -
  have h: "length ([] :: FrameSummary list) \<le> MAX_FRAMES" by simp
  note shallow = collectFrames_bounded [OF h, of "frameChain 14" "''Page 1''" 0]
  note deep = collectFrames_bounded [OF h, of "frameChain 14" "''Page 1''" 11]
  have 1: "map frame_depth (collectFrames (frameChain 14) ''Page 1'' 0 []) =
          [0, 1, 2, 3, 4, 5, 6, 7, 8, 9, 10]"
    by (simp add: eval_nat_numeral pushFrame_def sampleBox_def MAX_TRAVERSAL_DEPTH_def
          MAX_FRAMES_def)
  have 2: "length (collectFrames (frameChain 14) ''Page 1'' 0 []) \<le> 500"
    using shallow by (rule conjunct1)
  have 3: "\<forall>f\<in>set (collectFrames (frameChain 14) ''Page 1'' 0 []). frame_depth f \<le> 10"
    using shallow [THEN conjunct2, THEN conjunct2, THEN conjunct1] by simp
  have 4: "collectFrames (frameChain 14) ''Page 1'' 0 [] =
         collectFrames (cutBelow 10 (frameChain 14)) ''Page 1'' 0 []"
    using shallow [THEN conjunct2, THEN conjunct2, THEN conjunct2, THEN conjunct1] by simp
  have 5: "collectFrames (frameChain 14) ''Page 1'' 11 [] = []"
    using deep [THEN conjunct2, THEN conjunct2, THEN conjunct2, THEN conjunct2, THEN conjunct1]
    by simp
  from h 1 2 3 4 5 show ?thesis by (simp add: list_all_iff)
qed

subsection \<open>C6: frames without a positive-area bounding box\<close>

lemma collect_origin:
  "extendsWith
     (\<lambda>f. \<exists>n\<in>set (subnodes node). \<exists>b.
            node_type n = ''FRAME'' \<and> absoluteBoundingBox n = Some b \<and>
            0 < bbox_width b \<and> 0 < bbox_height b \<and>
            frame_id f = node_id n \<and>
            frame_width f = Math_round (bbox_width b) \<and>
            frame_height f = Math_round (bbox_height b))
     frames (collectFrames node pageName depth frames)"
proof (rule collect_extendsWith(1) [where tree = node])
  fix n p d fs
  assume n: "n \<in> set (subnodes node)"
  show "extendsWith
     (\<lambda>f. \<exists>n\<in>set (subnodes node). \<exists>b.
            node_type n = ''FRAME'' \<and> absoluteBoundingBox n = Some b \<and>
            0 < bbox_width b \<and> 0 < bbox_height b \<and>
            frame_id f = node_id n \<and>
            frame_width f = Math_round (bbox_width b) \<and>
            frame_height f = Math_round (bbox_height b)) fs (pushFrame n p d fs)"
    using pushFrame_cases [of n p d fs] n
    by (auto simp: extendsWith_iff isValidFrame_def split: option.splits intro!: bexI [of _ n])
qed simp

lemma collect_skips:
  assumes "\<not> isValidFrame node"
  shows "collectFrames node pageName depth frames =
         (if MAX_TRAVERSAL_DEPTH < depth \<or> MAX_FRAMES \<le> length frames then frames
          else case children node of
                 None \<Rightarrow> frames
               | Some kids \<Rightarrow> collectChildren kids pageName (depth + 1) frames)"
  using pushFrame_invalid [OF assms] by (cases node) (simp add: Let_def)

text \<open>
  Claim C6. Every frame summary that \<^verbatim>\<open>collectFrames\<close> adds comes from a node of the
  tree that has type FRAME and a bounding box with strictly positive width and height,
  and carries that node's id and rounded size. A FRAME node whose bounding box is missing
  or has a width or a height that is not positive adds nothing itself and raises nothing:
  the call returns what the traversal of its children returns.
\<close>

theorem invalid_frames_excluded:
  "(\<forall>f\<in>set (drop (length frames) (collectFrames node pageName depth frames)).
      \<exists>n\<in>set (subnodes node). \<exists>b.
        node_type n = ''FRAME'' \<and> absoluteBoundingBox n = Some b \<and>
        0 < bbox_width b \<and> 0 < bbox_height b \<and>
        frame_id f = node_id n \<and>
        frame_width f = Math_round (bbox_width b) \<and>
        frame_height f = Math_round (bbox_height b))
   \<and> (node_type node = ''FRAME'' \<and>
        (absoluteBoundingBox node = None \<or>
         (\<exists>b. absoluteBoundingBox node = Some b \<and> (bbox_width b \<le> 0 \<or> bbox_height b \<le> 0)))
       \<longrightarrow> collectFrames node pageName depth frames =
             (if 10 < depth \<or> 500 \<le> length frames then frames
              else case children node of
                     None \<Rightarrow> frames
                   | Some kids \<Rightarrow> collectChildren kids pageName (depth + 1) frames))"
proof (intro conjI impI)
  show "\<forall>f\<in>set (drop (length frames) (collectFrames node pageName depth frames)).
      \<exists>n\<in>set (subnodes node). \<exists>b.
        node_type n = ''FRAME'' \<and> absoluteBoundingBox n = Some b \<and>
        0 < bbox_width b \<and> 0 < bbox_height b \<and>
        frame_id f = node_id n \<and>
        frame_width f = Math_round (bbox_width b) \<and>
        frame_height f = Math_round (bbox_height b)"
    using collect_origin [of node frames pageName depth]
    by (simp add: extendsWith_def list_all_iff)
next
  assume "node_type node = ''FRAME'' \<and>
        (absoluteBoundingBox node = None \<or>
         (\<exists>b. absoluteBoundingBox node = Some b \<and> (bbox_width b \<le> 0 \<or> bbox_height b \<le> 0)))"
  then have "\<not> isValidFrame node"
    by (auto simp: isValidFrame_def)
  then show "collectFrames node pageName depth frames =
             (if 10 < depth \<or> 500 \<le> length frames then frames
              else case children node of
                     None \<Rightarrow> frames
                   | Some kids \<Rightarrow> collectChildren kids pageName (depth + 1) frames)"
    using collect_skips [of node pageName depth frames]
    by (simp add: MAX_TRAVERSAL_DEPTH_def MAX_FRAMES_def)
qed

theorem invalid_frames_excluded_witness:
  "collectFrames mixedPage ''Page 1'' 0 [] =
     [cardSummary ''Page 1'' 2,
      \<lparr>frame_id = ''3:4'', frame_name = ''Hero'', frame_pageName = ''Page 1'',
       frame_width = 1440, frame_height = 900, frame_depth = 1\<rparr>]
   \<and> map node_id (filter isValidFrame (subnodes mixedPage)) = [''2:1'', ''3:4'']
   \<and> collectFrames noBoxFrame ''Page 1'' 1 [] = []
   \<and> collectFrames zeroWidthFrame ''Page 1'' 1 [] = collectChildren [sampleFrame] ''Page 1'' 2 []"
proof -
  have 1: "collectFrames mixedPage ''Page 1'' 0 [] =
     [cardSummary ''Page 1'' 2,
      \<lparr>frame_id = ''3:4'', frame_name = ''Hero'', frame_pageName = ''Page 1'',
       frame_width = 1440, frame_height = 900, frame_depth = 1\<rparr>]"
    by (simp add: mixedPage_def noBoxFrame_def zeroWidthFrame_def sampleFrame_def sampleBox_def
          cardSummary_def pushFrame_def or_default_def Math_round_def MAX_TRAVERSAL_DEPTH_def
          MAX_FRAMES_def)
  have 2: "map node_id (filter isValidFrame (subnodes mixedPage)) = [''2:1'', ''3:4'']"
    by (simp add: mixedPage_def noBoxFrame_def zeroWidthFrame_def sampleFrame_def sampleBox_def
          isValidFrame_def)
  have 3: "collectFrames noBoxFrame ''Page 1'' 1 [] = []"
  proof -
    have "node_type noBoxFrame = ''FRAME'' \<and>
        (absoluteBoundingBox noBoxFrame = None \<or>
         (\<exists>b. absoluteBoundingBox noBoxFrame = Some b \<and> (bbox_width b \<le> 0 \<or> bbox_height b \<le> 0)))"
      by (simp add: noBoxFrame_def)
    from invalid_frames_excluded [of "[]" noBoxFrame "''Page 1''" 1, THEN conjunct2, THEN mp, OF this]
    have "collectFrames noBoxFrame ''Page 1'' 1 [] =
            (case children noBoxFrame of None \<Rightarrow> []
             | Some kids \<Rightarrow> collectChildren kids ''Page 1'' (1 + 1) [])"
      by simp
    moreover have "children noBoxFrame = None" by (simp add: noBoxFrame_def)
    ultimately show ?thesis by simp
  qed
  have 4: "collectFrames zeroWidthFrame ''Page 1'' 1 [] =
           collectChildren [sampleFrame] ''Page 1'' 2 []"
  proof -
    have "node_type zeroWidthFrame = ''FRAME'' \<and>
        (absoluteBoundingBox zeroWidthFrame = None \<or>
         (\<exists>b. absoluteBoundingBox zeroWidthFrame = Some b \<and>
              (bbox_width b \<le> 0 \<or> bbox_height b \<le> 0)))"
      by (simp add: zeroWidthFrame_def)
    from invalid_frames_excluded [of "[]" zeroWidthFrame "''Page 1''" 1, THEN conjunct2, THEN mp, OF this]
    have "collectFrames zeroWidthFrame ''Page 1'' 1 [] =
            (case children zeroWidthFrame of None \<Rightarrow> []
             | Some kids \<Rightarrow> collectChildren kids ''Page 1'' (1 + 1) [])"
      by simp
    moreover have "children zeroWidthFrame = Some [sampleFrame]" by (simp add: zeroWidthFrame_def)
    moreover have "(1::nat) + 1 = 2" by simp
    ultimately show ?thesis by (simp only: option.case)
  qed
  from 1 2 3 4 show ?thesis by simp
qed

subsection \<open>C9: the truncation flag\<close>

lemma collect_sampleFrame:
  "d \<le> MAX_TRAVERSAL_DEPTH \<Longrightarrow> length frames < MAX_FRAMES \<Longrightarrow>
     collectFrames sampleFrame p d frames = frames @ [cardSummary p d]"
  by (simp add: sampleFrame_def sampleBox_def pushFrame_def or_default_def Math_round_def
        cardSummary_def)

lemma collect_siblings:
  "d \<le> MAX_TRAVERSAL_DEPTH \<Longrightarrow>
     collectChildren (replicate n sampleFrame) p d frames =
       frames @ replicate (min n (MAX_FRAMES - length frames)) (cardSummary p d)"
proof (induction n arbitrary: frames)
  case 0
  show ?case by simp
next
  case (Suc n)
  show ?case
  proof (cases "MAX_FRAMES \<le> length frames")
    case True
    then show ?thesis by simp
  next
    case False
    then have l: "length frames < MAX_FRAMES" by simp
    have "collectChildren (replicate (Suc n) sampleFrame) p d frames =
          collectChildren (replicate n sampleFrame) p d (frames @ [cardSummary p d])"
      using False collect_sampleFrame [OF Suc.prems l] by simp
    also have "\<dots> = (frames @ [cardSummary p d]) @
          replicate (min n (MAX_FRAMES - length (frames @ [cardSummary p d]))) (cardSummary p d)"
      by (rule Suc.IH [OF Suc.prems])
    also have "\<dots> = frames @ replicate (Suc (min n (MAX_FRAMES - Suc (length frames)))) (cardSummary p d)"
      by simp
    also have "Suc (min n (MAX_FRAMES - Suc (length frames))) = min (Suc n) (MAX_FRAMES - length frames)"
      using l by simp
    finally show ?thesis .
  qed
qed

lemma extract_siblings:
  "extractFramesFromDocument (siblingFrames n) = replicate (min n 500) (cardSummary ''Page 1'' 1)"
proof -
  have "collectFrames (FigmaNode ''0:1'' ''Page 1'' ''CANVAS'' None (Some (replicate n sampleFrame)))
          ''Page 1'' 0 [] = collectChildren (replicate n sampleFrame) ''Page 1'' 1 []"
    by (simp add: pushFrame_def MAX_TRAVERSAL_DEPTH_def MAX_FRAMES_def)
  also have "\<dots> = replicate (min n 500) (cardSummary ''Page 1'' 1)"
    using collect_siblings [of 1 n "''Page 1''" "[]"] by (simp add: MAX_TRAVERSAL_DEPTH_def MAX_FRAMES_def)
  finally show ?thesis
    by (simp add: extractFramesFromDocument_def siblingFrames_def or_default_def MAX_FRAMES_def)
qed

lemma framesResponse_truncated:
  "response_body (framesResponse served) = FramesBody frames meta \<Longrightarrow>
     meta_truncated meta = (length frames = 500) \<and> meta_total meta = length frames"
  using extract_length [of "file_document served"]
  by (auto simp: framesResponse_def Let_def MAX_FRAMES_def)

lemma handleFetchError_body:
  "handleFetchError statusError e = Inr r \<Longrightarrow> \<exists>m d n. response_body r = ErrorBody m d n"
  by (auto simp: handleFetchError_def split: error.splits if_splits)

lemma GET_body:
  "(\<exists>m d n. response_body (GET request) = ErrorBody m d n) \<or>
   (\<exists>file. GET request = framesResponse file)"
  by (auto simp: GET_def unexpectedError_def dest: handleFetchError_body
           split: option.splits sum.splits)

lemma GET_sample:
  "GET (sampleRequest document [sampleCredential 9000000] [sampleCredential 9000000]) =
     framesResponse (sampleFile document)"
  by (simp add: GET_def sampleRequest_def sampleCuid_def sampleProject_def sampleCredential_def
        sampleEnv_def fetchFigmaFile_def getFigmaAccessToken_def getFigmaCredentialForProject_def
        refreshAccessTokenIfNeeded_def expiryBuffer_def decryptOrRaw_def falsy_def resp_ok_def)

text \<open>
  Claim C9. In every response of \<^verbatim>\<open>GET\<close> that carries frames, \<^verbatim>\<open>meta.truncated\<close> is
  true exactly when the frames array has length 500, and \<^verbatim>\<open>meta.total\<close> is that length.
  For a document of one page with \<open>n\<close> sibling frames the response holds the first
  \<open>min n 500\<close> of them and the flag is \<open>500 \<le> n\<close>: with exactly 500 frames none is
  dropped and the flag is set all the same.
\<close>

theorem truncated_iff_full:
  "(case response_body (GET request) of
      FramesBody frames meta \<Rightarrow>
        meta_truncated meta = (length frames = 500) \<and> meta_total meta = length frames
    | ErrorBody message details oauth \<Rightarrow> True)
   \<and> body_frames (response_body (framesResponse (sampleFile (siblingFrames n)))) =
         replicate (min n 500) (cardSummary ''Page 1'' 1)
   \<and> meta_truncated (body_meta (response_body (framesResponse (sampleFile (siblingFrames n))))) =
         (500 \<le> n)"
proof (intro conjI)
  show "case response_body (GET request) of
      FramesBody frames meta \<Rightarrow>
        meta_truncated meta = (length frames = 500) \<and> meta_total meta = length frames
    | ErrorBody message details oauth \<Rightarrow> True"
  proof (cases "response_body (GET request)")
    case (FramesBody frames meta)
    with GET_body [of request] obtain served where "GET request = framesResponse served" by auto
    with FramesBody have "response_body (framesResponse served) = FramesBody frames meta"
      by simp
    from framesResponse_truncated [OF this] FramesBody show ?thesis by simp
  next
    case (ErrorBody message details oauth)
    then show ?thesis by simp
  qed
next
  show "body_frames (response_body (framesResponse (sampleFile (siblingFrames n)))) =
         replicate (min n 500) (cardSummary ''Page 1'' 1)"
    by (simp add: framesResponse_def Let_def sampleFile_def extract_siblings)
next
  show "meta_truncated (body_meta (response_body (framesResponse (sampleFile (siblingFrames n))))) =
         (500 \<le> n)"
    by (simp add: framesResponse_def Let_def sampleFile_def extract_siblings MAX_FRAMES_def)
qed

theorem truncated_iff_full_witness:
  "response_status (GET (sampleRequest (siblingFrames 500)
      [sampleCredential 9000000] [sampleCredential 9000000])) = 200
   \<and> body_frames (response_body (GET (sampleRequest (siblingFrames 500)
      [sampleCredential 9000000] [sampleCredential 9000000]))) =
        replicate 500 (cardSummary ''Page 1'' 1)
   \<and> meta_truncated (body_meta (response_body (GET (sampleRequest (siblingFrames 500)
      [sampleCredential 9000000] [sampleCredential 9000000]))))"
  using truncated_iff_full [of "sampleRequest (siblingFrames 500)
      [sampleCredential 9000000] [sampleCredential 9000000]" 500]
  by (simp add: GET_sample) (simp add: framesResponse_def Let_def)

subsection \<open>C10: the node itself is among its components\<close>

lemma extractComponentsFromChildren_acc:
  "extractComponentsFromChildren kids depth components =
     components @ extractComponentsFromChildren kids depth []"
proof (induction kids arbitrary: components)
  case Nil
  show ?case by simp
next
  case (Cons child rest)
  have "extractComponentsFromChildren (child # rest) depth components =
        extractComponentsFromChildren rest depth
          (components @ extractComponentsFromNode child (depth + 1))"
    by simp
  also have "\<dots> = (components @ extractComponentsFromNode child (depth + 1)) @
        extractComponentsFromChildren rest depth []"
    by (rule Cons.IH)
  also have "\<dots> = components @ extractComponentsFromChildren rest depth
        ([] @ extractComponentsFromNode child (depth + 1))"
    using Cons.IH [of "[] @ extractComponentsFromNode child (depth + 1)"] by simp
  finally show ?case by simp
qed

lemma extractComponentsFromNode_unfold:
  "depth \<le> 10 \<Longrightarrow>
     extractComponentsFromNode node depth =
       pushComponent node [] @
       (case children node of
          None \<Rightarrow> []
        | Some kids \<Rightarrow> extractComponentsFromChildren kids depth [])"
proof (cases node)
  case (FigmaNode i n t bb cs)
  assume d: "depth \<le> 10"
  show ?thesis
  proof (cases cs)
    case None
    with FigmaNode d show ?thesis by simp
  next
    case (Some kids)
    with FigmaNode d show ?thesis
      using extractComponentsFromChildren_acc [of kids depth "pushComponent node []"]
      by simp
  qed
qed

text \<open>
  Claim C10. Called at a depth of at most 10 (the generator calls it at depth 0) on a node
  of type COMPONENT, INSTANCE, FRAME or GROUP whose bounding box has positive width and
  height, \<^verbatim>\<open>extractComponentsFromNode\<close> returns a list whose first entry is that node
  itself, with its id, name, type and rounded bounds; so the first component of the
  baseline data built for a selected frame is the frame.
\<close>

theorem root_component_included:
  assumes "node_type node = ''COMPONENT'' \<or> node_type node = ''INSTANCE'' \<or>
           node_type node = ''FRAME'' \<or> node_type node = ''GROUP''"
    and "absoluteBoundingBox node = Some bbox"
    and "0 < bbox_width bbox" and "0 < bbox_height bbox"
    and "depth \<le> 10"
  shows "(\<exists>below.
           extractComponentsFromNode node depth =
             \<lparr>comp_id = node_id node,
              comp_name = or_default (node_name node) ''Unnamed'',
              comp_type = node_type node,
              comp_bounds = \<lparr>bounds_x = Math_round (bbox_x bbox),
                              bounds_y = Math_round (bbox_y bbox),
                              bounds_width = Math_round (bbox_width bbox),
                              bounds_height = Math_round (bbox_height bbox)\<rparr>\<rparr> # below)
       \<and> comp_id (hd (data_components (buildBaselineData env served variables node))) = node_id node"
proof -
  let ?entry = "\<lparr>comp_id = node_id node,
              comp_name = or_default (node_name node) ''Unnamed'',
              comp_type = node_type node,
              comp_bounds = \<lparr>bounds_x = Math_round (bbox_x bbox),
                              bounds_y = Math_round (bbox_y bbox),
                              bounds_width = Math_round (bbox_width bbox),
                              bounds_height = Math_round (bbox_height bbox)\<rparr>\<rparr>"
  have p: "pushComponent node [] = [?entry]"
    using assms(1-4) by (simp add: pushComponent_def isComponent_def)
  have u: "\<And>d. d \<le> 10 \<Longrightarrow> \<exists>below. extractComponentsFromNode node d = ?entry # below"
    using extractComponentsFromNode_unfold [of _ node] p by simp
  have 1: "\<exists>below. extractComponentsFromNode node depth = ?entry # below"
    using u assms(5) by blast
  from u [of 0] obtain below0 where "extractComponentsFromNode node 0 = ?entry # below0"
    by auto
  then have 2: "comp_id (hd (data_components (buildBaselineData env served variables node))) = node_id node"
    by (simp add: buildBaselineData_def)
  from 1 2 show ?thesis by blast
qed

theorem root_component_included_witness:
  "map comp_id (extractComponentsFromNode (frameChain 1) 0) = [''1:1'', ''1:0'']
   \<and> comp_bounds (hd (extractComponentsFromNode (frameChain 1) 0)) =
        \<lparr>bounds_x = 0, bounds_y = 0, bounds_width = 320, bounds_height = 200\<rparr>
   \<and> node_id (frameChain 1) = ''1:1''"
proof -
  have t: "node_type (frameChain 1) = ''COMPONENT'' \<or> node_type (frameChain 1) = ''INSTANCE'' \<or>
           node_type (frameChain 1) = ''FRAME'' \<or> node_type (frameChain 1) = ''GROUP''"
    by (simp add: eval_nat_numeral)
  have b: "absoluteBoundingBox (frameChain 1) = Some sampleBox" by (simp add: eval_nat_numeral)
  have w: "0 < bbox_width sampleBox" and h: "0 < bbox_height sampleBox"
    by (simp_all add: sampleBox_def)
  have d: "(0 :: nat) \<le> 10" by simp
  from root_component_included [OF t b w h d, THEN conjunct1]
  have "comp_bounds (hd (extractComponentsFromNode (frameChain 1) 0)) =
        \<lparr>bounds_x = Math_round (bbox_x sampleBox), bounds_y = Math_round (bbox_y sampleBox),
         bounds_width = Math_round (bbox_width sampleBox),
         bounds_height = Math_round (bbox_height sampleBox)\<rparr>"
    by auto
  moreover have "map comp_id (extractComponentsFromNode (frameChain 1) 0) = [''1:1'', ''1:0'']"
    by (simp add: eval_nat_numeral pushComponent_def isComponent_def sampleBox_def)
  ultimately show ?thesis
    by (simp add: sampleBox_def Math_round_def eval_nat_numeral)
qed

subsection \<open>C7: colour tokens\<close>

lemma pow2_powr: "pow2 k = 2 powr (of_int k)"
  by (simp add: pow2_def powr_int)


lemma pow2_add: "pow2 (j + k) = pow2 j * pow2 k"
  by (simp add: pow2_powr powr_add)


lemma roundHalfEven_of_int: "roundHalfEven (of_int k) = k"
  by (simp add: roundHalfEven_def)




















subsection \<open>C8: spacing tokens\<close>

lemma isSpacing_proto: "\<not> isSpacing ''__proto__''"
  by (simp add: isSpacing_def toLowerCase_def toLowerCase_char_def)

lemma extractSpacingTokens_loop_append:
  "extractSpacingTokens_loop (xs @ ys) spacing =
     extractSpacingTokens_loop ys (extractSpacingTokens_loop xs spacing)"
  by (induction xs spacing rule: extractSpacingTokens_loop.induct) simp_all

lemma extractSpacingTokens_body_other:
  "(resolvedType variable = FLOAT \<and>
    (\<exists>y. firstModeValue (valuesByMode variable) = Some (ModeNumber y))
    \<longrightarrow> or_default (var_name variable) (''spacing-'' @ vid) \<noteq> k)
     \<Longrightarrow> extractSpacingTokens_body vid variable spacing k = spacing k"
  by (auto simp: extractSpacingTokens_body_def setProperty_def Let_def
           split: option.splits ModeValue.splits)

lemma extractSpacingTokens_loop_other:
  "(\<forall>(vid, v)\<in>set vars.
      resolvedType v = FLOAT \<and> (\<exists>y. firstModeValue (valuesByMode v) = Some (ModeNumber y))
      \<longrightarrow> or_default (var_name v) (''spacing-'' @ vid) \<noteq> k)
     \<Longrightarrow> extractSpacingTokens_loop vars spacing k = spacing k"
  by (induction vars spacing rule: extractSpacingTokens_loop.induct)
     (simp_all add: extractSpacingTokens_body_other)

lemma extractSpacingTokens_body_dom:
  "k \<in> dom (extractSpacingTokens_body vid v spacing) \<longleftrightarrow>
     k \<in> dom spacing \<or>
     (resolvedType v = FLOAT \<and> or_default (var_name v) (''spacing-'' @ vid) = k \<and> isSpacing k \<and>
      (\<exists>x. firstModeValue (valuesByMode v) = Some (ModeNumber x)))"
  using isSpacing_proto
  by (auto simp: extractSpacingTokens_body_def setProperty_def Let_def
           split: option.splits ModeValue.splits)

lemma extractSpacingTokens_loop_dom:
  "k \<in> dom (extractSpacingTokens_loop vars spacing) \<longleftrightarrow>
     k \<in> dom spacing \<or>
     (\<exists>(vid, v)\<in>set vars.
        resolvedType v = FLOAT \<and> or_default (var_name v) (''spacing-'' @ vid) = k \<and> isSpacing k \<and>
        (\<exists>x. firstModeValue (valuesByMode v) = Some (ModeNumber x)))"
proof (induction vars spacing rule: extractSpacingTokens_loop.induct)
  case (1 spacing)
  show ?case by simp
next
  case (2 vid variable rest spacing)
  show ?case
    unfolding extractSpacingTokens_loop.simps "2.IH" extractSpacingTokens_body_dom
    by auto
qed

text \<open>
  Claim C8, as amended. The extractor names a float variable by its name, or by
  \<^verbatim>\<open>spacing-<id>\<close> when the name is empty. A key is in the spacing map exactly when some
  variable of resolved type FLOAT has that key as its name in this sense, the key contains
  one of \<^verbatim>\<open>spacing\<close>, \<^verbatim>\<open>space\<close>, \<^verbatim>\<open>gap\<close>, \<^verbatim>\<open>margin\<close>, \<^verbatim>\<open>padding\<close> without
  regard to case, and the variable's first mode value is a number; the entry holds the
  number of the last such variable (a later variable of the name whose value is not a
  number changes nothing). A float variable \<^verbatim>\<open>Spacing/Large\<close> of value 24 gives
  the entry \<^verbatim>\<open>{"Spacing/Large": 24}\<close>, and a float variable \<^verbatim>\<open>Icon Size\<close> gives none.
\<close>

theorem spacing_token_inclusion:
  "(k \<in> dom (extractSpacingTokens variables) \<longleftrightarrow>
      (\<exists>(vid, v)\<in>set variables.
         resolvedType v = FLOAT \<and> or_default (var_name v) (''spacing-'' @ vid) = k \<and> isSpacing k \<and>
         (\<exists>x. firstModeValue (valuesByMode v) = Some (ModeNumber x))))
   \<and> (resolvedType variable = FLOAT \<and>
        isSpacing (or_default (var_name variable) (''spacing-'' @ vid)) \<and>
        firstModeValue (valuesByMode variable) = Some (ModeNumber x) \<and>
        (\<forall>(vid', v')\<in>set later.
           resolvedType v' = FLOAT \<and>
           (\<exists>y. firstModeValue (valuesByMode v') = Some (ModeNumber y))
           \<longrightarrow> or_default (var_name v') (''spacing-'' @ vid') \<noteq>
               or_default (var_name variable) (''spacing-'' @ vid))
       \<longrightarrow> extractSpacingTokens (earlier @ (vid, variable) # later)
             (or_default (var_name variable) (''spacing-'' @ vid)) = Some x)
   \<and> extractSpacingTokens
         [(''VariableID:7:3'', floatVariable ''Spacing/Large'' (ModeNumber 24)),
          (''VariableID:7:4'', floatVariable ''Icon Size'' (ModeNumber 16))] =
       [''Spacing/Large'' \<mapsto> 24]"
proof (intro conjI impI)
  show "k \<in> dom (extractSpacingTokens variables) \<longleftrightarrow>
      (\<exists>(vid, v)\<in>set variables.
         resolvedType v = FLOAT \<and> or_default (var_name v) (''spacing-'' @ vid) = k \<and> isSpacing k \<and>
         (\<exists>x. firstModeValue (valuesByMode v) = Some (ModeNumber x)))"
    unfolding extractSpacingTokens_def extractSpacingTokens_loop_dom by simp
next
  let ?k = "or_default (var_name variable) (''spacing-'' @ vid)"
  assume h: "resolvedType variable = FLOAT \<and> isSpacing ?k \<and>
        firstModeValue (valuesByMode variable) = Some (ModeNumber x) \<and>
        (\<forall>(vid', v')\<in>set later.
           resolvedType v' = FLOAT \<and>
           (\<exists>y. firstModeValue (valuesByMode v') = Some (ModeNumber y))
           \<longrightarrow> or_default (var_name v') (''spacing-'' @ vid') \<noteq> ?k)"
  then have later: "\<forall>(vid', v')\<in>set later.
           resolvedType v' = FLOAT \<and>
           (\<exists>y. firstModeValue (valuesByMode v') = Some (ModeNumber y))
           \<longrightarrow> or_default (var_name v') (''spacing-'' @ vid') \<noteq> ?k" by blast
  have body: "extractSpacingTokens_body vid variable spacing ?k = Some x" for spacing
    using h isSpacing_proto by (auto simp: extractSpacingTokens_body_def setProperty_def Let_def)
  have "extractSpacingTokens (earlier @ (vid, variable) # later) ?k =
        extractSpacingTokens_loop later
          (extractSpacingTokens_body vid variable (extractSpacingTokens_loop earlier Map.empty)) ?k"
    by (simp add: extractSpacingTokens_def extractSpacingTokens_loop_append)
  also have "\<dots> = extractSpacingTokens_body vid variable
                     (extractSpacingTokens_loop earlier Map.empty) ?k"
    by (rule extractSpacingTokens_loop_other [OF later])
  also have "\<dots> = Some x" by (rule body)
  finally show "extractSpacingTokens (earlier @ (vid, variable) # later) ?k = Some x" .
next
  show "extractSpacingTokens
         [(''VariableID:7:3'', floatVariable ''Spacing/Large'' (ModeNumber 24)),
          (''VariableID:7:4'', floatVariable ''Icon Size'' (ModeNumber 16))] =
       [''Spacing/Large'' \<mapsto> 24]"
    by (simp add: extractSpacingTokens_def extractSpacingTokens_body_def setProperty_def
          floatVariable_def
          firstModeValue_def or_default_def isSpacing_def toLowerCase_def toLowerCase_char_def
          Let_def)
qed

theorem spacing_token_inclusion_witness:
  "''Spacing/Large'' \<in> dom (extractSpacingTokens
         [(''VariableID:7:3'', floatVariable ''Spacing/Large'' (ModeNumber 24)),
          (''VariableID:7:4'', floatVariable ''Icon Size'' (ModeNumber 16))])
   \<and> ''Icon Size'' \<notin> dom (extractSpacingTokens
         [(''VariableID:7:3'', floatVariable ''Spacing/Large'' (ModeNumber 24)),
          (''VariableID:7:4'', floatVariable ''Icon Size'' (ModeNumber 16))])
   \<and> isSpacing ''Spacing/Large'' \<and> \<not> isSpacing ''Icon Size''
   \<and> extractSpacingTokens
         [(''VariableID:7:2'', floatVariable ''Spacing/Large'' (ModeNumber 16)),
          (''VariableID:7:3'', floatVariable ''Spacing/Large'' (ModeNumber 24)),
          (''VariableID:7:4'', floatVariable ''Icon Size'' (ModeNumber 16)),
          (''VariableID:7:5'', floatVariable ''Spacing/Large'' (ModeString ''24px''))]
         ''Spacing/Large'' = Some 24"
proof -
  let ?large = "floatVariable ''Spacing/Large'' (ModeNumber 24)"
  let ?icon = "floatVariable ''Icon Size'' (ModeNumber 16)"
  let ?unit = "floatVariable ''Spacing/Large'' (ModeString ''24px'')"
  let ?vars = "[(''VariableID:7:3'', ?large), (''VariableID:7:4'', ?icon)]"
  have a: "isSpacing ''Spacing/Large''" and b: "\<not> isSpacing ''Icon Size''"
    by (simp_all add: isSpacing_def toLowerCase_def toLowerCase_char_def)
  have 1: "''Spacing/Large'' \<in> dom (extractSpacingTokens ?vars)"
    using spacing_token_inclusion [of "''Spacing/Large''" ?vars, THEN conjunct1] a
    by (simp add: floatVariable_def or_default_def firstModeValue_def)
  have 2: "''Icon Size'' \<notin> dom (extractSpacingTokens ?vars)"
    using spacing_token_inclusion [of "''Icon Size''" ?vars, THEN conjunct1] b
    by (simp add: floatVariable_def or_default_def firstModeValue_def)
  have name: "or_default (var_name ?large) (''spacing-'' @ ''VariableID:7:3'') = ''Spacing/Large''"
    by (simp add: floatVariable_def or_default_def)
  have h: "resolvedType ?large = FLOAT \<and>
        isSpacing (or_default (var_name ?large) (''spacing-'' @ ''VariableID:7:3'')) \<and>
        firstModeValue (valuesByMode ?large) = Some (ModeNumber 24) \<and>
        (\<forall>(vid', v')\<in>set [(''VariableID:7:4'', ?icon), (''VariableID:7:5'', ?unit)].
           resolvedType v' = FLOAT \<and>
           (\<exists>y. firstModeValue (valuesByMode v') = Some (ModeNumber y))
           \<longrightarrow> or_default (var_name v') (''spacing-'' @ vid') \<noteq>
               or_default (var_name ?large) (''spacing-'' @ ''VariableID:7:3''))"
    unfolding name using a by (simp add: floatVariable_def or_default_def firstModeValue_def)
  from spacing_token_inclusion [of _ _ ?large "''VariableID:7:3''" 24
      "[(''VariableID:7:4'', ?icon), (''VariableID:7:5'', ?unit)]"
      "[(''VariableID:7:2'', floatVariable ''Spacing/Large'' (ModeNumber 16))]",
      THEN conjunct2, THEN conjunct1, THEN mp, OF h]
  have 3: "extractSpacingTokens
         [(''VariableID:7:2'', floatVariable ''Spacing/Large'' (ModeNumber 16)),
          (''VariableID:7:3'', ?large), (''VariableID:7:4'', ?icon), (''VariableID:7:5'', ?unit)]
         ''Spacing/Large'' = Some 24"
    unfolding name by simp
  from 1 2 a b 3 show ?thesis by blast
qed

text \<open>
  The claim as written fails for a float variable with an empty name: its name contains
  none of the substrings, and it is included, under the key \<^verbatim>\<open>spacing-<id>\<close>.
\<close>

theorem spacing_unnamed_counterexample:
  "resolvedType (floatVariable [] (ModeNumber 8)) = FLOAT
   \<and> \<not> isSpacing (var_name (floatVariable [] (ModeNumber 8)))
   \<and> extractSpacingTokens [(''VariableID:7:3'', floatVariable [] (ModeNumber 8))]
        ''spacing-VariableID:7:3'' = Some 8"
  by (simp add: extractSpacingTokens_def extractSpacingTokens_body_def setProperty_def
        floatVariable_def
        firstModeValue_def or_default_def isSpacing_def toLowerCase_def toLowerCase_char_def
        Let_def)

subsection \<open>C3: the baseline build is an upsert\<close>















subsection \<open>C4: the refresh policy\<close>

lemma updateCredential_result:
  "updateCredential table cid access refresh expiresAt updated = Inr (table', fresh) \<Longrightarrow>
     accessTokenExpiresAt fresh = expiresAt \<and> cred_id fresh = cid \<and> fresh \<in> set table' \<and>
     map cred_id table' = map cred_id table"
proof -
  assume u: "updateCredential table cid access refresh expiresAt updated = Inr (table', fresh)"
  then obtain row where row: "find (\<lambda>c. cred_id c = cid) table = Some row"
    by (auto simp: updateCredential_def split: option.splits)
  let ?ch = "\<lambda>c. c\<lparr>accessToken := access, refreshToken := refresh,
                      accessTokenExpiresAt := expiresAt, cred_updatedAt := updated\<rparr>"
  from u row have t: "table' = map (\<lambda>c. if cred_id c = cid then ?ch c else c) table"
    and f: "fresh = ?ch row"
    by (auto simp: updateCredential_def Let_def)
  from row have rin: "row \<in> set table" and rid: "cred_id row = cid"
    by (auto simp: find_Some_iff)
  have "map cred_id table' = map cred_id table" unfolding t by (induction table) auto
  moreover have "fresh \<in> set table'" unfolding t f using rin rid by force
  ultimately show ?thesis using f rid by simp
qed

lemma sample_refresh:
  "refreshAccessTokenIfNeeded (sampleEnv sampleFrame expiresIn)
      [sampleCredential 1060000] (sampleCredential 1060000) =
   Inr ([(sampleCredential (1000000 + expiresIn * 1000))
           \<lparr>accessToken := ''figu_new'', refreshToken := ''figr_new'', cred_updatedAt := 1000000\<rparr>],
        (sampleCredential (1000000 + expiresIn * 1000))
           \<lparr>accessToken := ''figu_new'', refreshToken := ''figr_new'', cred_updatedAt := 1000000\<rparr>)"
  by (simp add: refreshAccessTokenIfNeeded_def sampleEnv_def sampleCredential_def expiryBuffer_def
        falsy_def decryptOrRaw_def resp_ok_def encryptTokens_def updateCredential_def Let_def)

text \<open>
  Claim C4, as amended. When the recorded expiry is at least two minutes after the clock
  reading, \<^verbatim>\<open>refreshAccessTokenIfNeeded\<close> returns the credential and the table as they
  are. When it is less than two minutes away and the call succeeds, the provider was asked
  and answered with a 2xx status, and the credential's own row now holds the expiry
  \<open>now_response + expires_in * 1000\<close>, where \<open>expires_in\<close> is the provider's answer; this
  is more than two minutes after the first clock reading whenever \<open>expires_in\<close> exceeds
  120 seconds and the clock has not gone back.
\<close>

theorem refresh_policy:
  "(expiryBuffer \<le> accessTokenExpiresAt credential - now_check env \<longrightarrow>
      refreshAccessTokenIfNeeded env table credential = Inr (table, credential))
   \<and> (accessTokenExpiresAt credential - now_check env < expiryBuffer \<and>
       refreshAccessTokenIfNeeded env table credential = Inr (table', fresh) \<longrightarrow>
        (\<exists>response answer.
           tokenFetch env (decryptOrRaw env (refreshToken credential)) = Inr response \<and>
           resp_ok response \<and> resp_json response = Inr answer \<and>
           accessTokenExpiresAt fresh = now_response env + expires_in answer * 1000 \<and>
           cred_id fresh = cred_id credential \<and> fresh \<in> set table' \<and>
           (120 < expires_in answer \<and> now_check env \<le> now_response env \<longrightarrow>
              now_check env + 2 * 60 * 1000 < accessTokenExpiresAt fresh)))"
proof (intro conjI impI)
  assume "expiryBuffer \<le> accessTokenExpiresAt credential - now_check env"
  then show "refreshAccessTokenIfNeeded env table credential = Inr (table, credential)"
    by (simp add: refreshAccessTokenIfNeeded_def)
next
  assume h: "accessTokenExpiresAt credential - now_check env < expiryBuffer \<and>
       refreshAccessTokenIfNeeded env table credential = Inr (table', fresh)"
  then obtain response answer where
    tf: "tokenFetch env (decryptOrRaw env (refreshToken credential)) = Inr response"
    and ok: "resp_ok response" and js: "resp_json response = Inr answer"
    and up: "updateCredential table (cred_id credential)
               (fst (encryptTokens env (access_token answer) (refresh_token answer)))
               (snd (encryptTokens env (access_token answer) (refresh_token answer)))
               (now_response env + expires_in answer * 1000) (now_update env) = Inr (table', fresh)"
    by (auto simp: refreshAccessTokenIfNeeded_def Let_def
             split: if_splits sum.splits prod.splits)
  from updateCredential_result [OF up] have
    e: "accessTokenExpiresAt fresh = now_response env + expires_in answer * 1000"
    and i: "cred_id fresh = cred_id credential" and m: "fresh \<in> set table'" by blast+
  have "120 < expires_in answer \<and> now_check env \<le> now_response env \<longrightarrow>
              now_check env + 2 * 60 * 1000 < accessTokenExpiresAt fresh"
    using e by auto
  with tf ok js e i m show "\<exists>response answer.
           tokenFetch env (decryptOrRaw env (refreshToken credential)) = Inr response \<and>
           resp_ok response \<and> resp_json response = Inr answer \<and>
           accessTokenExpiresAt fresh = now_response env + expires_in answer * 1000 \<and>
           cred_id fresh = cred_id credential \<and> fresh \<in> set table' \<and>
           (120 < expires_in answer \<and> now_check env \<le> now_response env \<longrightarrow>
              now_check env + 2 * 60 * 1000 < accessTokenExpiresAt fresh)"
    by blast
qed

theorem refresh_policy_witness:
  "expiryBuffer \<le> accessTokenExpiresAt (sampleCredential 9000000) -
                     now_check (sampleEnv sampleFrame 7776000)
   \<and> refreshAccessTokenIfNeeded (sampleEnv sampleFrame 7776000)
        [sampleCredential 9000000] (sampleCredential 9000000) =
       Inr ([sampleCredential 9000000], sampleCredential 9000000)
   \<and> accessTokenExpiresAt (sampleCredential 1060000) - now_check (sampleEnv sampleFrame 7776000)
        < expiryBuffer
   \<and> map_sum id (\<lambda>(table, c). (accessTokenExpiresAt c, cred_id c, c \<in> set table))
        (refreshAccessTokenIfNeeded (sampleEnv sampleFrame 7776000)
           [sampleCredential 1060000] (sampleCredential 1060000)) =
       Inr (7777000000, ''cred_1'', True)
   \<and> now_check (sampleEnv sampleFrame 7776000) + 2 * 60 * 1000 < 7777000000"
proof -
  let ?env = "sampleEnv sampleFrame 7776000"
  let ?fresh = "(sampleCredential (1000000 + 7776000 * 1000))
           \<lparr>accessToken := ''figu_new'', refreshToken := ''figr_new'', cred_updatedAt := 1000000\<rparr>"
  have a: "expiryBuffer \<le> accessTokenExpiresAt (sampleCredential 9000000) - now_check ?env"
    by (simp add: expiryBuffer_def sampleCredential_def sampleEnv_def)
  from refresh_policy [of "sampleCredential 9000000" ?env "[sampleCredential 9000000]",
      THEN conjunct1, THEN mp, OF a]
  have 1: "refreshAccessTokenIfNeeded ?env [sampleCredential 9000000] (sampleCredential 9000000) =
       Inr ([sampleCredential 9000000], sampleCredential 9000000)" .
  have b: "accessTokenExpiresAt (sampleCredential 1060000) - now_check ?env < expiryBuffer"
    by (simp add: expiryBuffer_def sampleCredential_def sampleEnv_def)
  have r: "refreshAccessTokenIfNeeded ?env [sampleCredential 1060000] (sampleCredential 1060000) =
        Inr ([?fresh], ?fresh)"
    by (rule sample_refresh)
  from refresh_policy [of "sampleCredential 1060000" ?env "[sampleCredential 1060000]"
      "[?fresh]" ?fresh, THEN conjunct2, THEN mp, OF conjI [OF b r]]
  have stored: "cred_id ?fresh = cred_id (sampleCredential 1060000) \<and> ?fresh \<in> set [?fresh]"
    by blast
  have 2: "map_sum id (\<lambda>(table, c). (accessTokenExpiresAt c, cred_id c, c \<in> set table))
        (refreshAccessTokenIfNeeded ?env [sampleCredential 1060000] (sampleCredential 1060000)) =
        Inr (7777000000, ''cred_1'', True)"
    unfolding r using stored by (simp add: sampleCredential_def)
  have 3: "now_check ?env + 2 * 60 * 1000 < 7777000000" by (simp add: sampleEnv_def)
  from a 1 b 2 3 show ?thesis by blast
qed

text \<open>
  The claim as written fails when the provider answers with a short lifetime: with
  \<open>expires_in = 60\<close> the stored expiry is one minute after the clock reading.
\<close>

theorem refresh_short_lived_counterexample:
  "accessTokenExpiresAt (sampleCredential 1060000) - now_check (sampleEnv sampleFrame 60)
        < expiryBuffer
   \<and> map_sum id (\<lambda>(table, c). (map accessTokenExpiresAt table, accessTokenExpiresAt c))
        (refreshAccessTokenIfNeeded (sampleEnv sampleFrame 60)
           [sampleCredential 1060000] (sampleCredential 1060000)) = Inr ([1060000], 1060000)
   \<and> \<not> now_check (sampleEnv sampleFrame 60) + 2 * 60 * 1000 < 1060000"
  unfolding sample_refresh by (simp add: sampleCredential_def expiryBuffer_def sampleEnv_def)

subsection \<open>C5: the client's failure for a missing credential\<close>

lemma startsWith_set: "startsWith s p \<Longrightarrow> set p \<subseteq> set s"
  by (induction s p rule: startsWith.induct) auto

lemma str_includes_set: "str_includes s p \<Longrightarrow> set p \<subseteq> set s"
proof (induction s)
  case Nil
  then show ?case by simp
next
  case (Cons c cs)
  then show ?case using startsWith_set [of "c # cs" p] by auto
qed

lemma not_connected_message:
  assumes "CHR '' '' \<notin> set projectId"
  shows "\<not> str_includes (''Figma credentials not found for project '' @ projectId)
           ''No Figma credentials''"
proof -
  have "\<not> str_includes projectId ''No Figma credentials''"
    using str_includes_set [of projectId "''No Figma credentials''"] assms by auto
  moreover have "str_includes (''Figma credentials not found for project '' @ projectId)
           ''No Figma credentials'' = str_includes projectId ''No Figma credentials''"
    by simp
  ultimately show ?thesis by simp
qed

text \<open>
  Claim C5, evaluated. When the project's credential is present at the handler's own check
  and absent when the client reads it, \<^verbatim>\<open>getFigmaAccessToken\<close> raises a plain error with
  the message \<^verbatim>\<open>Figma credentials not found for project <id>\<close>; the handler's
  \<^verbatim>\<open>catch\<close> looks for \<^verbatim>\<open>No Figma credentials\<close> in the message, does not find it (the
  project id, a cuid, holds no space), throws the error again, and the response is the
  generic 500 without \<^verbatim>\<open>needsOAuth\<close>.
\<close>

theorem missing_credential_unrecognised:
  assumes "searchParams_projectId request = Some projectId"
    and "zod_cuid request projectId" and "CHR '' '' \<notin> set projectId"
    and "find (\<lambda>p. project_id p = projectId) (projectTable request) = Some project"
    and "figmaFileKey project = Some fileKey" and "fileKey \<noteq> []"
    and "find (\<lambda>c. cred_projectId c = projectId) (credentialsAtCheck request) \<noteq> None"
    and "find (\<lambda>c. cred_projectId c = projectId) (credentialsAtFetch request) = None"
    and "credentialQueryError (figmaEnv request) = None"
  shows "getFigmaAccessToken (figmaEnv request) (credentialsAtFetch request) projectId =
           Inl (Error (''Figma credentials not found for project '' @ projectId))
       \<and> handleFetchError (responseStatusError request)
             (Error (''Figma credentials not found for project '' @ projectId)) =
           Inl (Error (''Figma credentials not found for project '' @ projectId))
       \<and> GET request =
           \<lparr>response_status = 500,
            response_body = ErrorBody ''An unexpected error occurred''
              (Details (''Figma credentials not found for project '' @ projectId)) False\<rparr>"
proof -
  let ?e = "Error (''Figma credentials not found for project '' @ projectId)"
  have 1: "getFigmaAccessToken (figmaEnv request) (credentialsAtFetch request) projectId = Inl ?e"
    using assms(8,9) by (simp add: getFigmaAccessToken_def getFigmaCredentialForProject_def)
  have 2: "handleFetchError (responseStatusError request) ?e = Inl ?e"
    using not_connected_message [OF assms(3)] by (simp add: handleFetchError_def)
  have "fetchFigmaFile (figmaEnv request) (credentialsAtFetch request) projectId fileKey = Inl ?e"
    using 1 by (simp add: fetchFigmaFile_def)
  then have 3: "GET request = unexpectedError ?e"
    using assms(1-7) 2 by (auto simp: GET_def)
  from 1 2 3 show ?thesis by (simp add: unexpectedError_def)
qed

theorem missing_credential_unrecognised_witness:
  "GET (sampleRequest sampleFrame [sampleCredential 9000000] []) =
     \<lparr>response_status = 500,
      response_body = ErrorBody ''An unexpected error occurred''
        (Details ''Figma credentials not found for project clxy1234567890'') False\<rparr>
   \<and> response_status (GET (sampleRequest sampleFrame [] [])) = 400
   \<and> body_needsOAuth (response_body (GET (sampleRequest sampleFrame [] [])))
   \<and> handleFetchError (\<lambda>statusCode. ''Invalid response status code'')
        (Error ''No Figma credentials'') =
     Inr \<lparr>response_status = 400,
          response_body = ErrorBody ''Figma not connected''
            (Details ''Please connect your Figma account first.'') True\<rparr>"
proof -
  let ?r = "sampleRequest sampleFrame [sampleCredential 9000000] []"
  have 1: "searchParams_projectId ?r = Some ''clxy1234567890''" by (simp add: sampleRequest_def)
  have 2: "zod_cuid ?r ''clxy1234567890''" by (simp add: sampleRequest_def sampleCuid_def)
  have 3: "CHR '' '' \<notin> set ''clxy1234567890''" by simp
  have 4: "find (\<lambda>p. project_id p = ''clxy1234567890'') (projectTable ?r) = Some sampleProject"
    by (simp add: sampleRequest_def sampleProject_def)
  have 5: "figmaFileKey sampleProject = Some ''abc123''" by (simp add: sampleProject_def)
  have 6: "''abc123'' \<noteq> []" by simp
  have 7: "find (\<lambda>c. cred_projectId c = ''clxy1234567890'') (credentialsAtCheck ?r) \<noteq> None"
    by (simp add: sampleRequest_def sampleCredential_def)
  have 8: "find (\<lambda>c. cred_projectId c = ''clxy1234567890'') (credentialsAtFetch ?r) = None"
    by (simp add: sampleRequest_def)
  have 9: "credentialQueryError (figmaEnv ?r) = None"
    by (simp add: sampleRequest_def sampleEnv_def)
  note bug = missing_credential_unrecognised [OF 1 2 3 4 5 6 7 8 9, THEN conjunct2, THEN conjunct2]
  have pre: "response_status (GET (sampleRequest sampleFrame [] [])) = 400
      \<and> body_needsOAuth (response_body (GET (sampleRequest sampleFrame [] [])))"
    by (simp add: GET_def sampleRequest_def sampleCuid_def sampleProject_def)
  have rec: "handleFetchError (\<lambda>statusCode. ''Invalid response status code'')
        (Error ''No Figma credentials'') =
     Inr \<lparr>response_status = 400,
          response_body = ErrorBody ''Figma not connected''
            (Details ''Please connect your Figma account first.'') True\<rparr>"
    by (simp add: handleFetchError_def)
  from bug pre rec show ?thesis by simp
qed

end
